theory Spec2Isabelle
  imports Complex_Main
begin

section \<open>The DiffEdit facade (diff\_edit/model/diff\_edit\_model.py)\<close>

text \<open>
  The class \<open>DiffEdit\<close> sequences three collaborators (\<open>ImageProcessor\<close>,
  \<open>MaskGenerator\<close>, \<open>Inpainter\<close>), the imaging library and the file system. The
  embedding keeps what the facade itself does: the existence checks, the order of
  the calls, the arguments handed over, the files written and read, and every
  exception as a value. What the collaborators and the libraries compute is a
  parameter of the model.
\<close>

subsection \<open>Exceptions\<close>

datatype error =
    ValueError string
  | AttributeError string
  | TypeError string
  | FileNotFoundError string
  | NotADirectoryError string
  | IsADirectoryError string
  | UnidentifiedImageError string
  | OSError string
  | CollaboratorError string

subsection \<open>Paths and files\<close>

type_synonym path = string
type_synonym bytes = "nat list"

datatype node = File bytes | Dir

text \<open>
  A place in the directory tree: the names on the way down from the root. The file
  system maps places to what is there; the root is a directory. Links and
  permissions are not modelled.
\<close>

type_synonym location = "string list"

definition node_at :: "(location \<rightharpoonup> node) \<Rightarrow> location \<Rightarrow> node option" where
  "node_at f loc = (if loc = [] then Some Dir else f loc)"

text \<open>The two ways in which looking a path up fails.\<close>

datatype errno = ENOENT | ENOTDIR

text \<open>A path cut at its separators, as \<open>str.split\<close> cuts it.\<close>

fun split_sep :: "char \<Rightarrow> string \<Rightarrow> string list" where
  "split_sep c [] = [[]]"
| "split_sep c (x # xs) =
     (if x = c then [] # split_sep c xs
      else (case split_sep c xs of [] \<Rightarrow> [[x]] | y # ys \<Rightarrow> (x # y) # ys))"

text \<open>
  One component of a path: an empty component and \<open>.\<close> stay where they are,
  \<open>..\<close> goes up (the root is its own parent), a name goes down.
\<close>

definition step :: "location \<Rightarrow> string \<Rightarrow> location" where
  "step loc c =
     (if c = [] \<or> c = ''.'' then loc else if c = ''..'' then butlast loc else loc @ [c])"

text \<open>
  Following the components of a path from a place: each component is looked up
  in a directory, so the place it is looked up in must be one.
\<close>

fun walk :: "(location \<rightharpoonup> node) \<Rightarrow> location \<Rightarrow> string list \<Rightarrow> errno + location" where
  "walk f loc [] = Inr loc"
| "walk f loc (c # cs) =
     (case node_at f loc of
        None \<Rightarrow> Inl ENOENT
      | Some (File b) \<Rightarrow> Inl ENOTDIR
      | Some Dir \<Rightarrow> walk f (step loc c) cs)"

text \<open>
  \<open>os.path.join(a, b)\<close> of posixpath, for two components: an absolute \<open>b\<close>
  replaces \<open>a\<close>; an empty \<open>a\<close>, or one that ends with the separator, is
  extended by \<open>b\<close>; otherwise the separator is put between them.
\<close>

definition path_join :: "path \<Rightarrow> path \<Rightarrow> path" where
  "path_join a b =
     (if b \<noteq> [] \<and> hd b = CHR ''/'' then b
      else if a = [] \<or> last a = CHR ''/'' then a @ b
      else a @ ''/'' @ b)"

subsection \<open>Images\<close>

text \<open>
  A PIL image, as far as the facade looks at it: its size (width, height), its mode
  (\<open>L\<close>, \<open>RGB\<close>, \<open>RGBA\<close>, ...) and its pixel data, which the facade never inspects.
\<close>

record image =
  im_size :: "nat \<times> nat"
  im_mode :: string
  im_data :: "nat list"

subsection \<open>Constants (diff\_edit/model/constants.py)\<close>

text \<open>
  The module of constants is not part of the sources at hand; its three values are
  taken as a parameter.
\<close>

record constants =
  VAE_CONST :: real
  TORCH_SEED :: int
  IMG_RESIZE_DIM :: nat

subsection \<open>Collaborators\<close>

text \<open>
  The behaviour of the imaging library and of the three collaborator classes:
  \<^item> \<open>resample\<close>: the pixel data \<open>Image.resize\<close> computes for a target size;
  \<^item> \<open>encode_bmp\<close>: the bytes \<open>Image.save\<close> writes to a \<open>.bmp\<close> file
    (\<open>None\<close>: the image cannot be written as a bitmap);
  \<^item> \<open>decode_img\<close>: the image \<open>Image.open\<close> reads from the bytes of a file
    (\<open>None\<close>: the bytes are not an image);
  \<^item> \<open>img2latent\<close>, \<open>get_blended_mask\<close>: \<open>ImageProcessor\<close>;
  \<^item> \<open>generate\<close>: the mask computation inside \<open>MaskGenerator\<close>, giving the
    value \<open>calc_diffedit_mask\<close> returns, the processed mask and the rough mask;
  \<^item> \<open>inpaint_mask\<close>: \<open>Inpainter\<close>.
  A collaborator may raise: its result is a sum. It is taken as a function of
  its arguments: what the random generator of the tensor library or its
  floating-point arithmetic may add from one run to the next is not in the model.
\<close>

record ('lat, 'm) components =
  resample :: "nat \<times> nat \<Rightarrow> image \<Rightarrow> nat list"
  encode_bmp :: "image \<Rightarrow> bytes option"
  decode_img :: "bytes \<Rightarrow> image option"
  img2latent :: "image \<Rightarrow> real \<Rightarrow> error + 'lat"
  generate :: "'lat \<Rightarrow> string \<Rightarrow> string \<Rightarrow> int \<Rightarrow> int \<Rightarrow> error + ('m \<times> image \<times> image)"
  get_blended_mask :: "image \<Rightarrow> 'm \<Rightarrow> error + image"
  inpaint_mask :: "image \<Rightarrow> image \<Rightarrow> string \<Rightarrow> int \<Rightarrow> error + image"

text \<open>The calls the facade makes to its collaborators, with their arguments.\<close>

datatype ('lat, 'm) call =
    CallImg2Latent image real
  | CallCalcMask 'lat string string int int
  | CallBlend image 'm
  | CallInpaint image image string int

subsection \<open>State\<close>

text \<open>
  The state the facade works on: the file system and the working directory of the
  process, the two attributes of the mask generator that \<open>get_mask\<close> reads
  (\<open>None\<close>: the attribute is not set), and the sequence of collaborator calls made
  so far, oldest first.
\<close>

record ('lat, 'm) session =
  fs :: "location \<rightharpoonup> node"
  cwd :: location
  processed_mask :: "image option"
  rough_mask :: "image option"
  calls :: "('lat, 'm) call list"

type_synonym ('s, 'a) action = "'s \<Rightarrow> (error + 'a) \<times> 's"

definition return_ex :: "'a \<Rightarrow> ('s, 'a) action" where
  "return_ex x s = (Inr x, s)"

definition raise_ex :: "error \<Rightarrow> ('s, 'a) action" where
  "raise_ex e s = (Inl e, s)"

text \<open>Sequencing: an exception of the first action ends the run, keeping its state.\<close>

definition bind_ex :: "('s, 'a) action \<Rightarrow> ('a \<Rightarrow> ('s, 'b) action) \<Rightarrow> ('s, 'b) action" where
  "bind_ex m f s = (case m s of (Inl e, s') \<Rightarrow> (Inl e, s') | (Inr x, s') \<Rightarrow> f x s')"

text \<open>A collaborator call: recorded, then its result or its exception.\<close>

definition invoke :: "('lat, 'm) call \<Rightarrow> error + 'a \<Rightarrow> (('lat, 'm) session, 'a) action" where
  "invoke c r s = (r, s\<lparr>calls := calls s @ [c]\<rparr>)"

subsection \<open>File system and imaging primitives\<close>

text \<open>
  The place a path names: an absolute path is followed from the root, a relative
  one from the working directory; the empty path names nothing.
\<close>

definition resolve :: "('lat, 'm) session \<Rightarrow> path \<Rightarrow> errno + location" where
  "resolve s p =
     (if p = [] then Inl ENOENT
      else walk (fs s) (if hd p = CHR ''/'' then [] else cwd s) (split_sep CHR ''/'' p))"

definition os_error :: "errno \<Rightarrow> path \<Rightarrow> error" where
  "os_error e p = (case e of ENOENT \<Rightarrow> FileNotFoundError p | ENOTDIR \<Rightarrow> NotADirectoryError p)"

text \<open>What is at a path, if anything.\<close>

definition node_of :: "('lat, 'm) session \<Rightarrow> path \<Rightarrow> node option" where
  "node_of s p = (case resolve s p of Inl e \<Rightarrow> None | Inr loc \<Rightarrow> node_at (fs s) loc)"

text \<open>\<open>os.path.exists\<close>.\<close>

definition path_exists :: "('lat, 'm) session \<Rightarrow> path \<Rightarrow> bool" where
  "path_exists s p = (node_of s p \<noteq> None)"

text \<open>
  \<open>open(p, "wb")\<close>: the directory the file is to be in must exist; the file is
  created, or truncated, when it is opened. The result is the open file, which
  is the place that is written to from then on.
\<close>

definition open_wb :: "path \<Rightarrow> (('lat, 'm) session, location) action" where
  "open_wb p s =
     (case resolve s p of
        Inl e \<Rightarrow> (Inl (os_error e p), s)
      | Inr loc \<Rightarrow>
          (case node_at (fs s) loc of
             Some Dir \<Rightarrow> (Inl (IsADirectoryError p), s)
           | _ \<Rightarrow> (Inr loc, s\<lparr>fs := (fs s)(loc \<mapsto> File [])\<rparr>)))"

text \<open>\<open>open(p, "rb")\<close> and reading the whole file.\<close>

definition read_rb :: "path \<Rightarrow> (('lat, 'm) session, bytes) action" where
  "read_rb p s =
     (case resolve s p of
        Inl e \<Rightarrow> (Inl (os_error e p), s)
      | Inr loc \<Rightarrow>
          (case node_at (fs s) loc of
             None \<Rightarrow> (Inl (FileNotFoundError p), s)
           | Some Dir \<Rightarrow> (Inl (IsADirectoryError p), s)
           | Some (File b) \<Rightarrow> (Inr b, s)))"

text \<open>The imaging library identifies no image in an empty file.\<close>

definition pil_decode :: "('lat, 'm) components \<Rightarrow> bytes \<Rightarrow> image option" where
  "pil_decode C b = (if b = [] then None else decode_img C b)"

text \<open>\<open>Image.open\<close> on a path or on a file opened for reading, loaded in full.\<close>

definition image_open :: "('lat, 'm) components \<Rightarrow> path \<Rightarrow> (('lat, 'm) session, image) action" where
  "image_open C p =
     bind_ex (read_rb p) (\<lambda>b.
       case pil_decode C b of
         None \<Rightarrow> raise_ex (UnidentifiedImageError p)
       | Some im \<Rightarrow> return_ex im)"

text \<open>
  \<open>im.resize((w, h))\<close>: a new image of the size asked for, in the mode of the
  old one (the working resolution is taken to be one the imaging library accepts).
\<close>

definition image_resize :: "('lat, 'm) components \<Rightarrow> nat \<times> nat \<Rightarrow> image \<Rightarrow> image" where
  "image_resize C sz im = \<lparr>im_size = sz, im_mode = im_mode im, im_data = resample C sz im\<rparr>"

text \<open>\<open>im.save(f)\<close> on the file \<open>f\<close>, opened for writing and empty.\<close>

definition image_save ::
  "('lat, 'm) components \<Rightarrow> image \<Rightarrow> location \<Rightarrow> (('lat, 'm) session, unit) action" where
  "image_save C im f s =
     (case encode_bmp C im of
        None \<Rightarrow> (Inl (OSError ''cannot write image as BMP''), s)
      | Some b \<Rightarrow> (Inr (), s\<lparr>fs := (fs s)(f \<mapsto> File b)\<rparr>))"

definition working_size :: "constants \<Rightarrow> nat \<times> nat" where
  "working_size K = (IMG_RESIZE_DIM K, IMG_RESIZE_DIM K)"

subsection \<open>The mask generator\<close>

text \<open>
  Modelled from the spec: \<open>MaskGenerator.calc_diffedit_mask\<close>
  (diff\_edit/model/mask\_generation.py is not part of the sources at hand).
  The mask generator's contract is
  \<open>generate(latent, prompt_remove, prompt_add, iterations, seed) -> (processed_mask, rough_mask)\<close>,
  with all noise derived from \<open>seed\<close> and the iteration index: the masks are a
  function of these five arguments. The facade reads the two masks from the
  attributes \<open>processed_mask\<close> and \<open>rough_mask\<close> of the generator after the call,
  so the call sets them.
\<close>

definition calc_diffedit_mask ::
  "('lat, 'm) components \<Rightarrow> 'lat \<Rightarrow> string \<Rightarrow> string \<Rightarrow> int \<Rightarrow> int \<Rightarrow> (('lat, 'm) session, 'm) action" where
  "calc_diffedit_mask C lat p1 p2 n seed =
     bind_ex (invoke (CallCalcMask lat p1 p2 n seed) (generate C lat p1 p2 n seed))
       (\<lambda>(m, pm, rm) s. (Inr m, s\<lparr>processed_mask := Some pm, rough_mask := Some rm\<rparr>))"

text \<open>Reading an attribute of the mask generator; an unset attribute raises.\<close>

definition get_attr :: "(('lat, 'm) session \<Rightarrow> image option) \<Rightarrow> string \<Rightarrow> (('lat, 'm) session, image) action" where
  "get_attr field name s =
     (case field s of None \<Rightarrow> (Inl (AttributeError name), s) | Some v \<Rightarrow> (Inr v, s))"

subsection \<open>The operations of the facade\<close>

definition get_mask ::
  "('lat, 'm) components \<Rightarrow> constants \<Rightarrow> path \<Rightarrow> string \<Rightarrow> string \<Rightarrow> int \<Rightarrow> int
     \<Rightarrow> (('lat, 'm) session, image \<times> image \<times> image) action" where
  "get_mask C K im_path p1 p2 seed n =
     bind_ex (image_open C im_path) (\<lambda>im0.
       let im = image_resize C (working_size K) im0 in
       bind_ex (invoke (CallImg2Latent im (VAE_CONST K)) (img2latent C im (VAE_CONST K))) (\<lambda>im_latent.
       bind_ex (calc_diffedit_mask C im_latent p1 p2 n seed) (\<lambda>mask_img.
       bind_ex (get_attr processed_mask ''processed_mask'') (\<lambda>pm.
       bind_ex (get_attr rough_mask ''rough_mask'') (\<lambda>rm.
       bind_ex (invoke (CallBlend im mask_img) (get_blended_mask C im mask_img)) (\<lambda>blended.
         return_ex (pm, rm, blended)))))))"

text \<open>\<open>refine_mask\<close>: the body is \<open>pass\<close>; the value is Python's \<open>None\<close>.\<close>

definition refine_mask :: "image \<Rightarrow> int \<Rightarrow> 'kw \<Rightarrow> (('lat, 'm) session, image option) action" where
  "refine_mask mask_img n kwargs = return_ex None"

definition path_error :: "path \<Rightarrow> error" where
  "path_error im_path =
     ValueError (''Image path '' @ im_path @ '' does not exist. Check the provided path'')"

definition create_mask ::
  "('lat, 'm) components \<Rightarrow> constants \<Rightarrow> path \<Rightarrow> string \<Rightarrow> string \<Rightarrow> int \<Rightarrow> int
     \<Rightarrow> (('lat, 'm) session, image \<times> image \<times> image) action" where
  "create_mask C K im_path p1 p2 n seed s =
     (if \<not> path_exists s im_path then raise_ex (path_error im_path) s
      else get_mask C K im_path p1 p2 seed n s)"

definition save_mask ::
  "('lat, 'm) components \<Rightarrow> constants \<Rightarrow> image \<Rightarrow> image \<Rightarrow> image \<Rightarrow> path \<Rightarrow> path
     \<Rightarrow> (('lat, 'm) session, unit) action" where
  "save_mask C K mask_img rough blended im_path workdir =
     bind_ex (open_wb (path_join workdir ''mask.bmp'')) (\<lambda>f.
     bind_ex (image_save C mask_img f) (\<lambda>_.
     bind_ex (open_wb (path_join workdir ''rough_mask.bmp'')) (\<lambda>f.
     bind_ex (image_save C rough f) (\<lambda>_.
     bind_ex (open_wb (path_join workdir ''blended_mask.bmp'')) (\<lambda>f.
     bind_ex (image_save C blended f) (\<lambda>_.
     bind_ex (open_wb (path_join workdir ''original_image.bmp'')) (\<lambda>f.
     bind_ex (image_open C im_path) (\<lambda>im0.
       image_save C (image_resize C (working_size K) im0) f))))))))"

definition save_inpainted_image ::
  "('lat, 'm) components \<Rightarrow> image \<Rightarrow> path \<Rightarrow> (('lat, 'm) session, unit) action" where
  "save_inpainted_image C inpainted_image workdir =
     bind_ex (open_wb (path_join workdir ''inpainted_image.bmp'')) (\<lambda>f.
       image_save C inpainted_image f)"

definition masks_error :: "path \<Rightarrow> error" where
  "masks_error workdir =
     ValueError (''Mask files not found in '' @ workdir
                 @ ''. Run create_mask to generate the mask.'')"

definition load_mask ::
  "('lat, 'm) components \<Rightarrow> path \<Rightarrow> (('lat, 'm) session, image \<times> image \<times> image) action" where
  "load_mask C workdir s =
     (let mask_path = path_join workdir ''mask.bmp'';
          rough_mask_path = path_join workdir ''rough_mask.bmp'';
          blended_mask_path = path_join workdir ''blended_mask.bmp''
      in if \<not> (path_exists s mask_path \<and> path_exists s rough_mask_path
                \<and> path_exists s blended_mask_path)
         then raise_ex (masks_error workdir) s
         else bind_ex (image_open C mask_path) (\<lambda>mask_img.
              bind_ex (image_open C rough_mask_path) (\<lambda>rough.
              bind_ex (image_open C blended_mask_path) (\<lambda>blended.
                return_ex (mask_img, rough, blended)))) s)"

definition inpaint_mask_with_prompt ::
  "('lat, 'm) components \<Rightarrow> constants \<Rightarrow> path \<Rightarrow> image \<Rightarrow> string \<Rightarrow> int
     \<Rightarrow> (('lat, 'm) session, image) action" where
  "inpaint_mask_with_prompt C K im_path mask_img p2 seed s =
     (if \<not> path_exists s im_path then raise_ex (path_error im_path) s
      else bind_ex (image_open C im_path) (\<lambda>im0.
             let im = image_resize C (working_size K) im0 in
             invoke (CallInpaint im mask_img p2 seed) (inpaint_mask C im mask_img p2 seed)) s)"

text \<open>The default of the \<open>workdir\<close> parameter of the persistence operations.\<close>

definition default_workdir :: path where
  "default_workdir = ''./''"

definition demo_diffedit ::
  "('lat, 'm) components \<Rightarrow> constants \<Rightarrow> path \<Rightarrow> string \<Rightarrow> string \<Rightarrow> int \<Rightarrow> int
     \<Rightarrow> (('lat, 'm) session, image list) action" where
  "demo_diffedit C K im_path p1 p2 n seed s =
     (if \<not> path_exists s im_path then raise_ex (path_error im_path) s
      else bind_ex (image_open C im_path) (\<lambda>im0.
             let im = image_resize C (working_size K) im0 in
             bind_ex (create_mask C K im_path p1 p2 n seed) (\<lambda>(mask_img, rough_img, blended_img).
             bind_ex (save_mask C K mask_img rough_img blended_img im_path default_workdir) (\<lambda>_.
             bind_ex (load_mask C ''./'') (\<lambda>(mask_loaded, rough_loaded, blended_loaded).
             bind_ex (inpaint_mask_with_prompt C K im_path mask_loaded p2 seed) (\<lambda>inpainted_image.
             bind_ex (save_inpainted_image C inpainted_image default_workdir) (\<lambda>_.
               return_ex [im, blended_img, inpainted_image])))))) s)"

subsection \<open>The object and its construction\<close>

text \<open>
  The tokenizer, as \<open>_get_embedding_for_prompt\<close> uses it: its maximum length, the
  token ids of a text and the id it pads with.
\<close>

record clip_tokenizer =
  model_max_length :: nat
  tokenize :: "string \<Rightarrow> nat list"
  pad_token_id :: nat

text \<open>
  The tensor library, for modules of type \<open>'c\<close>: \<open>module_to\<close> is the method
  \<open>.to(device)\<close> of a module or pipeline, which may raise; \<open>hidden_state\<close> is the
  vector a text encoder computes for one position of a token sequence and
  \<open>pooled\<close> its summary of the sequence.
\<close>

record ('c, 'h) torch_lib =
  module_to :: "'c \<Rightarrow> string option \<Rightarrow> error + 'c"
  hidden_state :: "'c \<Rightarrow> nat list \<Rightarrow> nat \<Rightarrow> 'h"
  pooled :: "'c \<Rightarrow> nat list \<Rightarrow> 'h"

text \<open>
  The classes of the three collaborators (image\_processing.py,
  mask\_generation.py and mask\_inpainting.py are not part of the sources at
  hand): what their constructors return for the arguments \<open>__init__\<close> passes,
  or the exception they raise.
\<close>

record ('c, 'sch, 'ip, 'mg, 'inp) collaborator_classes =
  new_image_processor :: "'c option \<Rightarrow> string option \<Rightarrow> error + 'ip"
  new_mask_generator ::
    "'c option \<Rightarrow> 'sch option \<Rightarrow> clip_tokenizer option \<Rightarrow> 'c option \<Rightarrow> 'ip \<Rightarrow> string option
       \<Rightarrow> error + 'mg"
  new_inpainter :: "'c option \<Rightarrow> string option \<Rightarrow> error + 'inp"

text \<open>
  Modelled from the spec: the constructors of \<open>ImageProcessor\<close>, \<open>MaskGenerator\<close>
  and \<open>Inpainter\<close>. The spec describes the component fields as optional,
  defaulting to "not yet wired", with no validation that the collaborators are
  present: a constructor keeps its arguments as they are.
\<close>

record 'c image_processor =
  ip_vae :: "'c option"
  ip_device :: "string option"

record ('c, 'sch) mask_generator =
  mg_unet :: "'c option"
  mg_scheduler :: "'sch option"
  mg_tokenizer :: "clip_tokenizer option"
  mg_text_encoder :: "'c option"
  mg_image_processor :: "'c image_processor"
  mg_device :: "string option"

record 'c inpainter =
  inp_pipeline :: "'c option"
  inp_device :: "string option"

definition ImageProcessor :: "'c option \<Rightarrow> string option \<Rightarrow> 'c image_processor" where
  "ImageProcessor v dev = \<lparr>ip_vae = v, ip_device = dev\<rparr>"

definition MaskGenerator ::
  "'c option \<Rightarrow> 'sch option \<Rightarrow> clip_tokenizer option \<Rightarrow> 'c option \<Rightarrow> 'c image_processor
     \<Rightarrow> string option \<Rightarrow> ('c, 'sch) mask_generator" where
  "MaskGenerator u sch tok te ip dev =
     \<lparr>mg_unet = u, mg_scheduler = sch, mg_tokenizer = tok, mg_text_encoder = te,
      mg_image_processor = ip, mg_device = dev\<rparr>"

definition Inpainter :: "'c option \<Rightarrow> string option \<Rightarrow> 'c inpainter" where
  "Inpainter pipe dev = \<lparr>inp_pipeline = pipe, inp_device = dev\<rparr>"

definition wiring_classes ::
  "('c, 'sch, 'c image_processor, ('c, 'sch) mask_generator, 'c inpainter) collaborator_classes" where
  "wiring_classes =
     \<lparr>new_image_processor = (\<lambda>v dev. Inr (ImageProcessor v dev)),
      new_mask_generator = (\<lambda>u sch tok te ip dev. Inr (MaskGenerator u sch tok te ip dev)),
      new_inpainter = (\<lambda>pipe dev. Inr (Inpainter pipe dev))\<rparr>"

text \<open>
  The attributes of a \<open>DiffEdit\<close> object. A component attribute is \<open>None\<close> when
  it holds Python's \<open>None\<close>; a collaborator attribute is \<open>None\<close> as long as
  \<open>__init__\<close> has not assigned it.
\<close>

record ('c, 'sch, 'ip, 'mg, 'inp) diff_edit =
  tokenizer :: "clip_tokenizer option"
  text_encoder :: "'c option"
  vae :: "'c option"
  unet :: "'c option"
  inpainting :: "'c option"
  scheduler :: "'sch option"
  torch_device :: "string option"
  image_processor :: "'ip option"
  mask_generator :: "'mg option"
  inpainter :: "'inp option"

text \<open>\<open>x.to(device)\<close> on the value of an attribute: \<open>None\<close> has no method \<open>to\<close>.\<close>

definition attr_to :: "('c, 'h) torch_lib \<Rightarrow> 'c option \<Rightarrow> string option \<Rightarrow> error + 'c" where
  "attr_to L x device =
     (case x of
        None \<Rightarrow> Inl (AttributeError ''NoneType object has no attribute to'')
      | Some c \<Rightarrow> module_to L c device)"

text \<open>
  \<open>DiffEdit.to\<close>: four assignments in the order of the source, each one made
  before the next attribute is read; the object is the state.
\<close>

definition to ::
  "('c, 'h) torch_lib \<Rightarrow> string option
     \<Rightarrow> (('c, 'sch, 'ip, 'mg, 'inp) diff_edit, unit) action" where
  "to L device =
     bind_ex (\<lambda>self. case attr_to L (vae self) device of
                Inl e \<Rightarrow> (Inl e, self) | Inr c \<Rightarrow> (Inr (), self\<lparr>vae := Some c\<rparr>)) (\<lambda>_.
     bind_ex (\<lambda>self. case attr_to L (text_encoder self) device of
                Inl e \<Rightarrow> (Inl e, self) | Inr c \<Rightarrow> (Inr (), self\<lparr>text_encoder := Some c\<rparr>)) (\<lambda>_.
     bind_ex (\<lambda>self. case attr_to L (unet self) device of
                Inl e \<Rightarrow> (Inl e, self) | Inr c \<Rightarrow> (Inr (), self\<lparr>unet := Some c\<rparr>)) (\<lambda>_.
             (\<lambda>self. case attr_to L (inpainting self) device of
                Inl e \<Rightarrow> (Inl e, self) | Inr c \<Rightarrow> (Inr (), self\<lparr>inpainting := Some c\<rparr>)))))"

text \<open>
  \<open>DiffEdit.__init__\<close>: the seven arguments are stored, \<open>to\<close> is called, and the
  three collaborators are built, in the order of the source, from the arguments
  (not from the attributes \<open>to\<close> has just replaced). An exception leaves no object.
\<close>

definition DiffEdit_init ::
  "('c, 'h) torch_lib \<Rightarrow> ('c, 'sch, 'ip, 'mg, 'inp) collaborator_classes
     \<Rightarrow> clip_tokenizer option \<Rightarrow> 'c option \<Rightarrow> 'c option \<Rightarrow> 'c option
     \<Rightarrow> 'c option \<Rightarrow> 'sch option \<Rightarrow> string option
     \<Rightarrow> error + ('c, 'sch, 'ip, 'mg, 'inp) diff_edit" where
  "DiffEdit_init L N tokenizer_arg text_encoder_arg vae_arg unet_arg inpainting_arg scheduler_arg
       torch_device_arg =
     (let self0 = \<lparr>tokenizer = tokenizer_arg, text_encoder = text_encoder_arg, vae = vae_arg,
                   unet = unet_arg, inpainting = inpainting_arg, scheduler = scheduler_arg,
                   torch_device = torch_device_arg,
                   image_processor = None, mask_generator = None, inpainter = None\<rparr>
      in case to L torch_device_arg self0 of
           (Inl e, _) \<Rightarrow> Inl e
         | (Inr _, self1) \<Rightarrow>
             (case new_image_processor N vae_arg torch_device_arg of
                Inl e \<Rightarrow> Inl e
              | Inr ip \<Rightarrow>
                  (case new_mask_generator N unet_arg scheduler_arg tokenizer_arg text_encoder_arg
                          ip torch_device_arg of
                     Inl e \<Rightarrow> Inl e
                   | Inr mg \<Rightarrow>
                       (case new_inpainter N inpainting_arg torch_device_arg of
                          Inl e \<Rightarrow> Inl e
                        | Inr inp \<Rightarrow>
                            Inr (self1\<lparr>image_processor := Some ip, mask_generator := Some mg,
                                        inpainter := Some inp\<rparr>)))))"

subsection \<open>Prompt embedding\<close>

datatype padding = DoNotPad | Longest | MaxLength

text \<open>
  The tokenizer called on a batch of texts with the keywords \<open>padding\<close>,
  \<open>max_length\<close> and \<open>truncation\<close>: with truncation a sequence longer than
  \<open>max_length\<close> is cut to it; padding to \<open>max_length\<close> fills a shorter one with
  the padding id, padding to the longest fills up to the longest of the batch.
\<close>

definition tokenizer_call ::
  "clip_tokenizer \<Rightarrow> string list \<Rightarrow> padding \<Rightarrow> nat \<Rightarrow> bool \<Rightarrow> nat list list" where
  "tokenizer_call tok texts pad max_length truncation =
     (let seqs = map (\<lambda>t. if truncation then take max_length (tokenize tok t) else tokenize tok t)
                   texts;
          target = (case pad of
                      DoNotPad \<Rightarrow> 0
                    | Longest \<Rightarrow> fold max (map length seqs) 0
                    | MaxLength \<Rightarrow> max_length)
      in map (\<lambda>ids. ids @ replicate (target - length ids) (pad_token_id tok)) seqs)"

text \<open>A tensor of hidden vectors, batch by position, with its gradient flag.\<close>

record 'h tensor =
  t_data :: "'h list list"
  requires_grad :: bool

text \<open>
  The state of this operation is the gradient mode of the tensor library; moving
  the token ids to the device (\<open>input_ids.to(self.torch_device)\<close>) leaves their
  values as they are and is not written out. A forward
  pass of the text encoder gives, for each sequence of the batch, one hidden vector
  per position, and a pooled vector per sequence; its outputs track gradients
  exactly when the gradient mode is on.
\<close>

definition text_encoder_forward ::
  "('c, 'h) torch_lib \<Rightarrow> 'c \<Rightarrow> nat list list \<Rightarrow> (bool, 'h tensor \<times> 'h tensor) action" where
  "text_encoder_forward L enc input_ids g =
     (Inr (\<lparr>t_data = map (\<lambda>ids. map (hidden_state L enc ids) [0..<length ids]) input_ids,
             requires_grad = g\<rparr>,
           \<lparr>t_data = [map (pooled L enc) input_ids], requires_grad = g\<rparr>), g)"

text \<open>\<open>with torch.no_grad()\<close>: the body runs with the mode off; the old mode comes back.\<close>

definition no_grad :: "(bool, 'a) action \<Rightarrow> (bool, 'a) action" where
  "no_grad body g = (fst (body False), g)"

definition get_embedding_for_prompt ::
  "('c, 'h) torch_lib \<Rightarrow> ('c, 'sch, 'ip, 'mg, 'inp) diff_edit \<Rightarrow> string
     \<Rightarrow> (bool, 'h tensor) action" where
  "get_embedding_for_prompt L self prompt =
     (case tokenizer self of
        None \<Rightarrow> raise_ex (AttributeError ''NoneType object has no attribute model_max_length'')
      | Some tok \<Rightarrow>
          (let max_length = model_max_length tok;
               tokens = tokenizer_call tok [prompt] MaxLength max_length True
           in no_grad
                (case text_encoder self of
                   None \<Rightarrow> raise_ex (TypeError ''NoneType object is not callable'')
                 | Some enc \<Rightarrow>
                     bind_ex (text_encoder_forward L enc tokens) (\<lambda>out. return_ex (fst out)))))"

section \<open>Properties\<close>

subsection \<open>Notions used in the statements\<close>

text \<open>The bitmap codec loses nothing of an image: what is written is read back.\<close>

definition lossless :: "('lat, 'm) components \<Rightarrow> image \<Rightarrow> bool" where
  "lossless C im = (case encode_bmp C im of None \<Rightarrow> False | Some b \<Rightarrow> pil_decode C b = Some im)"

text \<open>The places that the paths of a set name.\<close>

definition places :: "('lat, 'm) session \<Rightarrow> path set \<Rightarrow> location set" where
  "places s ps = {loc. \<exists>p\<in>ps. resolve s p = Inr loc}"

text \<open>
  Between two states nothing but the file system differs; the file system differs
  at most at the places in \<open>A\<close>, and where there was a directory there is one, and
  nowhere else.
\<close>

definition only_files_changed ::
  "location set \<Rightarrow> ('lat, 'm) session \<Rightarrow> ('lat, 'm) session \<Rightarrow> bool" where
  "only_files_changed A s s' =
     (s' = s\<lparr>fs := fs s'\<rparr> \<and> (\<forall>loc. loc \<notin> A \<longrightarrow> fs s' loc = fs s loc)
      \<and> (\<forall>loc. (fs s' loc = Some Dir) = (fs s loc = Some Dir)))"

text \<open>A name of a directory entry: not empty, no separator in it, neither \<open>.\<close> nor \<open>..\<close>.\<close>

definition simple_name :: "string \<Rightarrow> bool" where
  "simple_name n = (n \<noteq> [] \<and> CHR ''/'' \<notin> set n \<and> n \<noteq> ''.'' \<and> n \<noteq> ''..'')"

text \<open>
  An action started where \<open>P\<close> holds ends where \<open>Q\<close> holds of its result, or, with
  an exception, where \<open>E\<close> holds.
\<close>

definition triple ::
  "('s \<Rightarrow> bool) \<Rightarrow> ('s, 'a) action \<Rightarrow> ('a \<Rightarrow> 's \<Rightarrow> bool) \<Rightarrow> ('s \<Rightarrow> bool) \<Rightarrow> bool" where
  "triple P m Q E =
     (\<forall>s. P s \<longrightarrow> (case m s of (Inl e, s') \<Rightarrow> E s' | (Inr x, s') \<Rightarrow> Q x s'))"

text \<open>The image read from the image path, where a collaborator call receives one.\<close>

fun source_image :: "('lat, 'm) call \<Rightarrow> image option" where
  "source_image (CallImg2Latent im v) = Some im"
| "source_image (CallCalcMask lat p1 p2 n seed) = None"
| "source_image (CallBlend im m) = Some im"
| "source_image (CallInpaint im msk p2 seed) = Some im"

definition resized_call :: "constants \<Rightarrow> ('lat, 'm) call \<Rightarrow> bool" where
  "resized_call K c =
     (case source_image c of None \<Rightarrow> True | Some im \<Rightarrow> im_size im = working_size K)"

text \<open>
  From \<open>s\<close> to \<open>s'\<close> calls were only added, and each added call that receives the
  source image receives it at the working resolution.
\<close>

definition resized_calls :: "constants \<Rightarrow> ('lat, 'm) session \<Rightarrow> ('lat, 'm) session \<Rightarrow> bool" where
  "resized_calls K s s' = (\<exists>new. calls s' = calls s @ new \<and> list_all (resized_call K) new)"

subsection \<open>A small concrete instance\<close>

text \<open>
  Collaborators that compute on short lists and a working resolution of 2. The
  codec writes width, height, a number for the mode and the pixel data; like the
  bitmap format of the imaging library it stores the modes \<open>L\<close>, \<open>RGB\<close> and
  \<open>RGBA\<close> only, and what was stored as \<open>RGBA\<close> is read back as \<open>RGB\<close>, without
  the fourth value of each pixel. The process runs in \<open>/home\<close>.
\<close>

fun drop_alpha :: "nat list \<Rightarrow> nat list" where
  "drop_alpha (r # g # b # a # rest) = r # g # b # drop_alpha rest"
| "drop_alpha xs = xs"

definition mode_code :: "string \<Rightarrow> nat option" where
  "mode_code m =
     (if m = ''L'' then Some 1 else if m = ''RGB'' then Some 3
      else if m = ''RGBA'' then Some 4 else None)"

definition ex_encode :: "image \<Rightarrow> bytes option" where
  "ex_encode im =
     (case mode_code (im_mode im) of
        None \<Rightarrow> None
      | Some c \<Rightarrow> Some (fst (im_size im) # snd (im_size im) # c # im_data im))"

definition ex_decode :: "bytes \<Rightarrow> image option" where
  "ex_decode b =
     (case b of
        w # h # c # d \<Rightarrow>
          (if c = 1 then Some \<lparr>im_size = (w, h), im_mode = ''L'', im_data = d\<rparr>
           else if c = 3 then Some \<lparr>im_size = (w, h), im_mode = ''RGB'', im_data = d\<rparr>
           else if c = 4 then Some \<lparr>im_size = (w, h), im_mode = ''RGB'', im_data = drop_alpha d\<rparr>
           else None)
      | _ \<Rightarrow> None)"

definition ex_components :: "(nat list, nat list) components" where
  "ex_components =
     \<lparr>resample = (\<lambda>sz im. rev (im_data im)),
      encode_bmp = ex_encode,
      decode_img = ex_decode,
      img2latent = (\<lambda>im v. Inr (im_data im)),
      generate = (\<lambda>lat p1 p2 n seed.
         Inr (lat, \<lparr>im_size = (2, 2), im_mode = ''L'', im_data = lat\<rparr>,
                   \<lparr>im_size = (2, 2), im_mode = ''L'', im_data = map Suc lat\<rparr>)),
      get_blended_mask = (\<lambda>im m.
         Inr \<lparr>im_size = im_size im, im_mode = im_mode im, im_data = map2 (+) (im_data im) m\<rparr>),
      inpaint_mask = (\<lambda>im msk p seed.
         Inr \<lparr>im_size = im_size im, im_mode = im_mode im,
               im_data = map2 (*) (im_data im) (im_data msk)\<rparr>)\<rparr>"

definition ex_constants :: constants where
  "ex_constants = \<lparr>VAE_CONST = 18215 / 100000, TORCH_SEED = 42, IMG_RESIZE_DIM = 2\<rparr>"

definition ex_session :: "(nat list, nat list) session" where
  "ex_session =
     \<lparr>fs = [[''home''] \<mapsto> Dir,
            [''home'', ''dog.png''] \<mapsto> File [4, 1, 1, 6, 7, 8, 9],
            [''home'', ''out''] \<mapsto> Dir],
      cwd = [''home''],
      processed_mask = None, rough_mask = None, calls = []\<rparr>"

definition ex_partial :: "(nat list, nat list) session" where
  "ex_partial =
     \<lparr>fs = [[''home''] \<mapsto> Dir,
            [''home'', ''work''] \<mapsto> Dir,
            [''home'', ''work'', ''mask.bmp''] \<mapsto> File [2, 2, 1, 1, 0, 0, 1],
            [''home'', ''work'', ''rough_mask.bmp''] \<mapsto> File [2, 2, 1, 1, 1, 0, 1],
            [''home'', ''work'', ''blended_mask.bmp''] \<mapsto> File [2, 2, 1, 5, 6, 7, 8]],
      cwd = [''home''],
      processed_mask = None, rough_mask = None, calls = []\<rparr>"

definition ex_mask :: image where
  "ex_mask = \<lparr>im_size = (2, 2), im_mode = ''L'', im_data = [1, 0, 0, 1]\<rparr>"

definition ex_rough :: image where
  "ex_rough = \<lparr>im_size = (2, 2), im_mode = ''L'', im_data = [1, 1, 0, 1]\<rparr>"

definition ex_blended :: image where
  "ex_blended = \<lparr>im_size = (2, 2), im_mode = ''L'', im_data = [5, 6, 7, 8]\<rparr>"

definition ex_rgba :: image where
  "ex_rgba = \<lparr>im_size = (1, 1), im_mode = ''RGBA'', im_data = [10, 20, 30, 255]\<rparr>"

definition ex_torch :: "(nat, nat) torch_lib" where
  "ex_torch =
     \<lparr>module_to = (\<lambda>c dev. Inr c),
      hidden_state = (\<lambda>c ids i. c + ids ! i),
      pooled = (\<lambda>c ids. c + sum_list ids)\<rparr>"

definition ex_tokenizer :: clip_tokenizer where
  "ex_tokenizer = \<lparr>model_max_length = 4, tokenize = map of_char, pad_token_id = 0\<rparr>"

definition ex_object ::
  "(nat, unit, nat image_processor, (nat, unit) mask_generator, nat inpainter) diff_edit" where
  "ex_object =
     \<lparr>tokenizer = Some ex_tokenizer, text_encoder = Some 1, vae = Some 2, unet = Some 3,
      inpainting = Some 4, scheduler = Some (), torch_device = Some ''cpu'',
      image_processor = None, mask_generator = None, inpainter = None\<rparr>"

definition ex_untokenized ::
  "(nat, unit, nat image_processor, (nat, unit) mask_generator, nat inpainter) diff_edit" where
  "ex_untokenized =
     \<lparr>tokenizer = None, text_encoder = Some 1, vae = Some 2, unet = Some 3, inpainting = Some 4,
      scheduler = None, torch_device = Some ''cpu'',
      image_processor = Some \<lparr>ip_vae = Some 2, ip_device = Some ''cpu''\<rparr>,
      mask_generator =
        Some \<lparr>mg_unet = Some 3, mg_scheduler = None, mg_tokenizer = None, mg_text_encoder = Some 1,
              mg_image_processor = \<lparr>ip_vae = Some 2, ip_device = Some ''cpu''\<rparr>,
              mg_device = Some ''cpu''\<rparr>,
      inpainter = Some \<lparr>inp_pipeline = Some 4, inp_device = Some ''cpu''\<rparr>\<rparr>"

subsection \<open>Sequencing\<close>

lemmas run_defs = get_mask_def create_mask_def save_mask_def load_mask_def demo_diffedit_def
  inpaint_mask_with_prompt_def save_inpainted_image_def
  image_open_def bind_ex_def read_rb_def raise_ex_def return_ex_def open_wb_def image_save_def
  invoke_def calc_diffedit_mask_def get_attr_def Let_def path_exists_def node_of_def resolve_def
  node_at_def step_def os_error_def pil_decode_def
  image_resize_def working_size_def path_join_def default_workdir_def
  ex_components_def ex_constants_def ex_session_def ex_encode_def ex_decode_def mode_code_def

lemma bind_ex_success:
  "bind_ex m f s = (Inr y, s'') \<longleftrightarrow> (\<exists>x s'. m s = (Inr x, s') \<and> f x s' = (Inr y, s''))"
  by (auto simp: bind_ex_def split: prod.splits sum.splits)

lemma triple_bind:
  assumes "triple P m Q E" and "\<And>x. triple (Q x) (f x) R E"
  shows "triple P (bind_ex m f) R E"
  unfolding triple_def
proof (intro allI impI)
  fix s
  assume "P s"
  show "case bind_ex m f s of (Inl e, s') \<Rightarrow> E s' | (Inr x, s') \<Rightarrow> R x s'"
  proof (cases "m s")
    case (Pair r s')
    show ?thesis
    proof (cases r)
      case (Inl e)
      with Pair \<open>P s\<close> assms(1) show ?thesis
        by (auto simp: triple_def bind_ex_def)
    next
      case (Inr x)
      with Pair \<open>P s\<close> assms(1) have "Q x s'"
        by (auto simp: triple_def)
      with assms(2)[of x] have "case f x s' of (Inl e, s'') \<Rightarrow> E s'' | (Inr y, s'') \<Rightarrow> R y s''"
        by (simp add: triple_def)
      with Pair Inr show ?thesis
        by (simp add: bind_ex_def)
    qed
  qed
qed

lemma triple_state:
  assumes "triple P m (\<lambda>_. Q) Q" and "P s"
  shows "Q (snd (m s))"
  using assms by (cases "m s") (auto simp: triple_def split: sum.splits)

subsection \<open>Paths and places\<close>

lemma split_sep_not_empty: "split_sep c xs \<noteq> []"
  by (induction xs) (auto split: list.splits)

lemma split_sep_simple: "c \<notin> set n \<Longrightarrow> split_sep c n = [n]"
  by (induction n) auto

lemma split_sep_append: "split_sep c (xs @ c # ys) = split_sep c xs @ split_sep c ys"
proof (induction xs)
  case Nil
  show ?case by simp
next
  case (Cons x xs)
  obtain y rest where "split_sep c xs = y # rest"
    using split_sep_not_empty[of c xs] by (cases "split_sep c xs") auto
  with Cons show ?case by simp
qed

lemma walk_snoc:
  "walk f loc (cs @ [c]) =
     (case walk f loc cs of
        Inl e \<Rightarrow> Inl e
      | Inr d \<Rightarrow> (case node_at f d of
                    None \<Rightarrow> Inl ENOENT
                  | Some (File b) \<Rightarrow> Inl ENOTDIR
                  | Some Dir \<Rightarrow> Inr (step d c)))"
  by (induction cs arbitrary: loc) (auto split: option.splits node.splits)

lemma walk_same_dirs:
  assumes "\<And>loc. (f' loc = Some Dir) = (f loc = Some Dir)"
  shows "(walk f' loc cs = Inr x) = (walk f loc cs = Inr x)"
proof (induction cs arbitrary: loc)
  case Nil
  show ?case by simp
next
  case (Cons c cs)
  have "(node_at f' loc = Some Dir) = (node_at f loc = Some Dir)"
    using assms by (simp add: node_at_def)
  with Cons show ?case
    by (cases "node_at f loc"; cases "node_at f' loc") (auto split: node.splits)
qed

lemma path_join_simple:
  assumes "simple_name n"
  shows "path_join w n = n \<or> (\<exists>q. path_join w n = q @ CHR ''/'' # n)"
proof -
  from assms have ne: "n \<noteq> []" and ns: "CHR ''/'' \<notin> set n"
    by (simp_all add: simple_name_def)
  from ne obtain a rest where "n = a # rest"
    by (cases n) auto
  with ns have "hd n \<noteq> CHR ''/''"
    by auto
  with ne have n: "n \<noteq> []" "hd n \<noteq> CHR ''/''"
    by blast+
  show ?thesis
  proof (cases "w = []")
    case True
    with n show ?thesis by (simp add: path_join_def)
  next
    case False
    show ?thesis
    proof (cases "last w = CHR ''/''")
      case True
      with False have "w = butlast w @ [CHR ''/'']"
        by (metis append_butlast_last_id)
      then have "w @ n = butlast w @ CHR ''/'' # n"
        by (metis append.assoc append_Cons append_Nil)
      with n True False show ?thesis by (auto simp: path_join_def)
    next
      case nl: False
      with n False show ?thesis by (auto simp: path_join_def)
    qed
  qed
qed

lemma resolve_join_last:
  assumes "simple_name n" and "resolve s (path_join w n) = Inr loc"
  shows "loc \<noteq> [] \<and> last loc = n"
proof -
  from assms(1) have n: "n \<noteq> []" "CHR ''/'' \<notin> set n" "n \<noteq> ''.''" "n \<noteq> ''..''"
    by (auto simp: simple_name_def)
  then have step: "step d n = d @ [n]" for d
    by (simp add: step_def)
  from path_join_simple[OF assms(1), of w]
  have "\<exists>cs. split_sep CHR ''/'' (path_join w n) = cs @ [n]"
  proof
    assume "path_join w n = n"
    with n have "split_sep CHR ''/'' (path_join w n) = [] @ [n]"
      by (simp add: split_sep_simple)
    then show ?thesis by blast
  next
    assume "\<exists>q. path_join w n = q @ CHR ''/'' # n"
    then obtain q where "path_join w n = q @ CHR ''/'' # n" ..
    with n have "split_sep CHR ''/'' (path_join w n) = split_sep CHR ''/'' q @ [n]"
      by (simp add: split_sep_append split_sep_simple)
    then show ?thesis by blast
  qed
  then obtain cs where cs: "split_sep CHR ''/'' (path_join w n) = cs @ [n]" ..
  from assms(2) obtain start where "walk (fs s) start (cs @ [n]) = Inr loc"
    by (auto simp: resolve_def cs split: if_splits)
  then obtain d where "loc = step d n"
    by (auto simp: walk_snoc split: sum.splits option.splits node.splits)
  with step show ?thesis by simp
qed

lemma resolve_join_distinct:
  assumes "simple_name n" and "simple_name n'" and "n \<noteq> n'"
    and "resolve s (path_join w n) = Inr loc" and "resolve s (path_join w n') = Inr loc'"
  shows "loc \<noteq> loc'"
  using resolve_join_last[OF assms(1,4)] resolve_join_last[OF assms(2,5)] assms(3) by auto

lemma artifact_names_simple:
  "simple_name ''mask.bmp''" "simple_name ''rough_mask.bmp''" "simple_name ''blended_mask.bmp''"
  "simple_name ''original_image.bmp''" "simple_name ''inpainted_image.bmp''"
  by (simp_all add: simple_name_def)

lemma resolve_same_dirs:
  assumes "cwd s' = cwd s" and "\<And>loc. (fs s' loc = Some Dir) = (fs s loc = Some Dir)"
  shows "(resolve s' p = Inr x) = (resolve s p = Inr x)"
  using walk_same_dirs[of "fs s'" "fs s", OF assms(2)] assms(1)
  by (simp add: resolve_def)

lemma cwd_only_files_changed: "only_files_changed A s s' \<Longrightarrow> cwd s' = cwd s"
  unfolding only_files_changed_def
  by (metis session.select_convs(2) session.surjective session.update_convs(1))

lemma calls_only_files_changed: "only_files_changed A s s' \<Longrightarrow> calls s' = calls s"
  unfolding only_files_changed_def
  by (metis session.select_convs(5) session.surjective session.update_convs(1))

lemma resolve_only_files_changed:
  assumes "only_files_changed A s s'"
  shows "(resolve s' p = Inr x) = (resolve s p = Inr x)"
proof (rule resolve_same_dirs)
  from assms show "cwd s' = cwd s" by (rule cwd_only_files_changed)
  from assms show "(fs s' loc = Some Dir) = (fs s loc = Some Dir)" for loc
    by (simp add: only_files_changed_def)
qed

lemma only_files_changed_refl: "only_files_changed A s s"
  by (simp add: only_files_changed_def)

lemma only_files_changed_write:
  assumes "only_files_changed A s0 s" and "loc \<in> A" and "fs s loc \<noteq> Some Dir"
  shows "only_files_changed A s0 (s\<lparr>fs := (fs s)(loc \<mapsto> File b)\<rparr>)"
proof -
  from assms(1) have "s = s0\<lparr>fs := fs s\<rparr>"
    by (simp add: only_files_changed_def)
  then have "s\<lparr>fs := (fs s)(loc \<mapsto> File b)\<rparr> = s0\<lparr>fs := (fs s)(loc \<mapsto> File b)\<rparr>"
    by (metis session.update_convs(1) session.surjective)
  with assms show ?thesis
    by (auto simp: only_files_changed_def)
qed

subsection \<open>Primitives\<close>

lemma open_wb_success:
  "open_wb p s = (Inr loc, s') \<longleftrightarrow>
     (resolve s p = Inr loc \<and> loc \<noteq> [] \<and> fs s loc \<noteq> Some Dir
      \<and> s' = s\<lparr>fs := (fs s)(loc \<mapsto> File [])\<rparr>)"
  by (auto simp: open_wb_def node_at_def split: sum.splits option.splits node.splits)

lemma image_save_success:
  "image_save C im f s = (Inr u, s') \<longleftrightarrow>
     (\<exists>b. encode_bmp C im = Some b \<and> s' = s\<lparr>fs := (fs s)(f \<mapsto> File b)\<rparr>)"
  by (auto simp: image_save_def split: option.splits)

lemma image_open_success:
  "image_open C p s = (Inr im, s') \<longleftrightarrow>
     (\<exists>b. node_of s p = Some (File b) \<and> pil_decode C b = Some im \<and> s' = s)"
  by (auto simp: image_open_def bind_ex_def read_rb_def raise_ex_def return_ex_def node_of_def
      split: sum.splits option.splits node.splits)

lemma image_open_state: "snd (image_open C p s) = s"
  by (auto simp: image_open_def bind_ex_def read_rb_def raise_ex_def return_ex_def
      split: sum.splits option.splits node.splits)

lemma image_open_success_state: "image_open C p s = (Inr x, s') \<Longrightarrow> s' = s"
  using image_open_state[of C p s] by simp

lemma im_size_resize: "im_size (image_resize C sz im) = sz"
  by (simp add: image_resize_def)

lemma load_mask_state: "snd (load_mask C w s) = s"
  by (auto simp: load_mask_def Let_def bind_ex_def raise_ex_def return_ex_def
      split: prod.splits sum.splits dest: arg_cong[where f=snd])
     (metis image_open_state snd_conv)+

lemma load_mask_success_state: "load_mask C w s = (Inr x, s') \<Longrightarrow> s' = s"
  using load_mask_state[of C w s] by simp

lemma node_of_write:
  assumes "resolve s p = Inr loc" and "fs s f \<noteq> Some Dir" and "f \<noteq> []"
  shows "node_of (s\<lparr>fs := (fs s)(f \<mapsto> File b)\<rparr>) p = (if loc = f then Some (File b) else node_of s p)"
proof -
  have "(resolve (s\<lparr>fs := (fs s)(f \<mapsto> File b)\<rparr>) p = Inr loc) = (resolve s p = Inr loc)"
    using assms(2) by (intro resolve_same_dirs) auto
  with assms(1) have "resolve (s\<lparr>fs := (fs s)(f \<mapsto> File b)\<rparr>) p = Inr loc"
    by simp
  with assms show ?thesis
    by (auto simp: node_of_def node_at_def)
qed

subsection \<open>What the persistence operations touch\<close>

lemma frame_open_wb:
  assumes "\<And>loc. resolve s0 p = Inr loc \<Longrightarrow> loc \<in> A"
  shows "triple (only_files_changed A s0) (open_wb p)
           (\<lambda>f s. only_files_changed A s0 s \<and> f \<in> A \<and> fs s f \<noteq> Some Dir)
           (only_files_changed A s0)"
  unfolding triple_def
proof (intro allI impI)
  fix s
  assume inv: "only_files_changed A s0 s"
  show "case open_wb p s of
          (Inl e, s') \<Rightarrow> only_files_changed A s0 s'
        | (Inr f, s') \<Rightarrow> only_files_changed A s0 s' \<and> f \<in> A \<and> fs s' f \<noteq> Some Dir"
  proof (cases "open_wb p s")
    case (Pair r s')
    show ?thesis
    proof (cases r)
      case (Inl e)
      with Pair have "s' = s"
        by (auto simp: open_wb_def split: sum.splits option.splits node.splits)
      with Pair Inl inv show ?thesis by simp
    next
      case (Inr f)
      with Pair have f: "resolve s p = Inr f" "fs s f \<noteq> Some Dir"
        and s': "s' = s\<lparr>fs := (fs s)(f \<mapsto> File [])\<rparr>"
        by (simp_all add: open_wb_success)
      from f(1) inv have "resolve s0 p = Inr f"
        by (simp add: resolve_only_files_changed)
      then have "f \<in> A" by (rule assms)
      from inv \<open>f \<in> A\<close> f(2) have "only_files_changed A s0 s'"
        unfolding s' by (rule only_files_changed_write)
      with Pair Inr \<open>f \<in> A\<close> s' show ?thesis by simp
    qed
  qed
qed

lemma frame_image_save:
  "triple (\<lambda>s. only_files_changed A s0 s \<and> f \<in> A \<and> fs s f \<noteq> Some Dir) (image_save C im f)
     (\<lambda>_. only_files_changed A s0) (only_files_changed A s0)"
  by (auto simp: triple_def image_save_def only_files_changed_write split: option.splits)

lemma frame_image_open:
  assumes "\<And>s. P s \<Longrightarrow> E s"
  shows "triple P (image_open C p) (\<lambda>_. P) E"
  unfolding triple_def
proof (intro allI impI)
  fix s
  assume "P s"
  with assms image_open_state[of C p s]
  show "case image_open C p s of (Inl e, s') \<Rightarrow> E s' | (Inr x, s') \<Rightarrow> P s'"
    by (cases "image_open C p s") (auto split: sum.splits)
qed

lemma frame_write_image:
  assumes "\<And>loc. resolve s0 p = Inr loc \<Longrightarrow> loc \<in> A"
  shows "triple (only_files_changed A s0) (bind_ex (open_wb p) (image_save C im))
           (\<lambda>_. only_files_changed A s0) (only_files_changed A s0)"
  by (rule triple_bind[OF frame_open_wb[OF assms] frame_image_save])

lemma save_mask_triple:
  assumes "places s0 {path_join w ''mask.bmp'', path_join w ''rough_mask.bmp'',
             path_join w ''blended_mask.bmp'', path_join w ''original_image.bmp''} \<subseteq> A"
  shows "triple (only_files_changed A s0) (save_mask C K m r b im_path w)
           (\<lambda>_. only_files_changed A s0) (only_files_changed A s0)"
proof -
  have in_A: "loc \<in> A"
    if "resolve s0 p = Inr loc"
      and "p \<in> {path_join w ''mask.bmp'', path_join w ''rough_mask.bmp'',
             path_join w ''blended_mask.bmp'', path_join w ''original_image.bmp''}" for p loc
    using that assms by (auto simp: places_def)
  show ?thesis
    unfolding save_mask_def
    apply (rule triple_bind[OF frame_open_wb], erule in_A, simp)
    apply (rule triple_bind[OF frame_image_save])
    apply (rule triple_bind[OF frame_open_wb], erule in_A, simp)
    apply (rule triple_bind[OF frame_image_save])
    apply (rule triple_bind[OF frame_open_wb], erule in_A, simp)
    apply (rule triple_bind[OF frame_image_save])
    apply (rule triple_bind[OF frame_open_wb], erule in_A, simp)
    apply (rule triple_bind[OF frame_image_open], simp)
    apply (rule frame_image_save)
    done
qed

lemma save_mask_frame:
  "only_files_changed
     (places s {path_join w ''mask.bmp'', path_join w ''rough_mask.bmp'',
                path_join w ''blended_mask.bmp'', path_join w ''original_image.bmp''}) s
     (snd (save_mask C K m r b im_path w s))"
  by (rule triple_state[OF save_mask_triple]) (simp_all add: only_files_changed_refl)

lemma save_inpainted_image_frame:
  "only_files_changed (places s {path_join w ''inpainted_image.bmp''}) s
     (snd (save_inpainted_image C i w s))"
proof (rule triple_state)
  show "triple (only_files_changed (places s {path_join w ''inpainted_image.bmp''}) s)
          (save_inpainted_image C i w)
          (\<lambda>_. only_files_changed (places s {path_join w ''inpainted_image.bmp''}) s)
          (only_files_changed (places s {path_join w ''inpainted_image.bmp''}) s)"
    unfolding save_inpainted_image_def
    by (rule triple_bind[OF frame_open_wb frame_image_save]) (simp add: places_def)
qed (simp add: only_files_changed_refl)

lemma resolve_write:
  assumes "fs s f \<noteq> Some Dir"
  shows "(resolve (s\<lparr>fs := (fs s)(f \<mapsto> File b)\<rparr>) p = Inr x) = (resolve s p = Inr x)"
  using assms by (intro resolve_same_dirs) auto

lemma write_step:
  assumes "open_wb p s = (Inr f, s1)" and "image_save C im f s1 = (Inr u, s2)"
  shows "\<exists>b. encode_bmp C im = Some b \<and> resolve s p = Inr f \<and> f \<noteq> [] \<and> fs s f \<noteq> Some Dir
           \<and> s2 = s\<lparr>fs := (fs s)(f \<mapsto> File b)\<rparr>"
  using assms by (auto simp: open_wb_success image_save_success)

lemma node_of_Some:
  "node_of s p = Some x \<Longrightarrow> \<exists>loc. resolve s p = Inr loc \<and> node_at (fs s) loc = Some x"
  by (auto simp: node_of_def split: sum.splits)

lemma save_mask_success:
  assumes "save_mask C K m r b im_path w s = (Inr u, s')"
  shows "\<exists>bm br bb bo im0.
           encode_bmp C m = Some bm \<and> encode_bmp C r = Some br \<and> encode_bmp C b = Some bb
         \<and> node_of s' (path_join w ''mask.bmp'') = Some (File bm)
         \<and> node_of s' (path_join w ''rough_mask.bmp'') = Some (File br)
         \<and> node_of s' (path_join w ''blended_mask.bmp'') = Some (File bb)
         \<and> image_open C im_path s' = (Inr im0, s')
         \<and> encode_bmp C (image_resize C (working_size K) im0) = Some bo
         \<and> node_of s' (path_join w ''original_image.bmp'') = Some (File bo)"
proof -
  let ?p1 = "path_join w ''mask.bmp''"
  let ?p2 = "path_join w ''rough_mask.bmp''"
  let ?p3 = "path_join w ''blended_mask.bmp''"
  let ?p4 = "path_join w ''original_image.bmp''"
  from assms obtain l1 s1 s2 l2 s3 s4 l3 s5 s6 l4 s7 im0 s8 where
    o1: "open_wb ?p1 s = (Inr l1, s1)" and w1: "image_save C m l1 s1 = (Inr (), s2)" and
    o2: "open_wb ?p2 s2 = (Inr l2, s3)" and w2: "image_save C r l2 s3 = (Inr (), s4)" and
    o3: "open_wb ?p3 s4 = (Inr l3, s5)" and w3: "image_save C b l3 s5 = (Inr (), s6)" and
    o4: "open_wb ?p4 s6 = (Inr l4, s7)" and io: "image_open C im_path s7 = (Inr im0, s8)" and
    w4: "image_save C (image_resize C (working_size K) im0) l4 s8 = (Inr u, s')"
    unfolding save_mask_def bind_ex_success by auto
  from write_step[OF o1 w1] obtain bm where bm: "encode_bmp C m = Some bm"
    and r1: "resolve s ?p1 = Inr l1" and d1: "fs s l1 \<noteq> Some Dir" "l1 \<noteq> []"
    and s2: "s2 = s\<lparr>fs := (fs s)(l1 \<mapsto> File bm)\<rparr>"
    by blast
  from write_step[OF o2 w2] obtain br where br: "encode_bmp C r = Some br"
    and r2': "resolve s2 ?p2 = Inr l2" and d2: "fs s2 l2 \<noteq> Some Dir" "l2 \<noteq> []"
    and s4: "s4 = s2\<lparr>fs := (fs s2)(l2 \<mapsto> File br)\<rparr>"
    by blast
  from write_step[OF o3 w3] obtain bb where bb: "encode_bmp C b = Some bb"
    and r3': "resolve s4 ?p3 = Inr l3" and d3: "fs s4 l3 \<noteq> Some Dir" "l3 \<noteq> []"
    and s6: "s6 = s4\<lparr>fs := (fs s4)(l3 \<mapsto> File bb)\<rparr>"
    by blast
  from io have s8: "s8 = s7" by (rule image_open_success_state)
  from write_step[OF o4 w4[unfolded s8]] obtain bo
    where bo: "encode_bmp C (image_resize C (working_size K) im0) = Some bo"
    and r4': "resolve s6 ?p4 = Inr l4" and d4: "fs s6 l4 \<noteq> Some Dir" "l4 \<noteq> []"
    and s': "s' = s6\<lparr>fs := (fs s6)(l4 \<mapsto> File bo)\<rparr>"
    by blast
  from o4 have s7: "s7 = s6\<lparr>fs := (fs s6)(l4 \<mapsto> File [])\<rparr>"
    by (simp add: open_wb_success)
  \<comment> \<open>the four places, as the paths name them in every state on the way\<close>
  have res2: "(resolve s2 p = Inr x) = (resolve s p = Inr x)" for p x
    unfolding s2 using d1(1) by (rule resolve_write)
  have res4: "(resolve s4 p = Inr x) = (resolve s p = Inr x)" for p x
    unfolding s4 using resolve_write[OF d2(1)] res2 by simp
  have res6: "(resolve s6 p = Inr x) = (resolve s p = Inr x)" for p x
    unfolding s6 using resolve_write[OF d3(1)] res4 by simp
  from r2' res2 have r2: "resolve s ?p2 = Inr l2" by simp
  from r3' res4 have r3: "resolve s ?p3 = Inr l3" by simp
  from r4' res6 have r4: "resolve s ?p4 = Inr l4" by simp
  have ne: "l1 \<noteq> l2" "l1 \<noteq> l3" "l1 \<noteq> l4" "l2 \<noteq> l3" "l2 \<noteq> l4" "l3 \<noteq> l4"
    using resolve_join_distinct[OF _ _ _ r1 r2] resolve_join_distinct[OF _ _ _ r1 r3]
      resolve_join_distinct[OF _ _ _ r1 r4] resolve_join_distinct[OF _ _ _ r2 r3]
      resolve_join_distinct[OF _ _ _ r2 r4] resolve_join_distinct[OF _ _ _ r3 r4]
    by (simp_all add: artifact_names_simple)
  \<comment> \<open>the three masks\<close>
  have n2: "node_of s2 ?p1 = Some (File bm)"
    unfolding s2 using node_of_write[OF r1 d1] by simp
  have n4: "node_of s4 ?p1 = Some (File bm)" "node_of s4 ?p2 = Some (File br)"
    unfolding s4
    using node_of_write[OF _ d2, of ?p1 l1] node_of_write[OF r2' d2] r1 res2 ne n2 by simp_all
  have n6: "node_of s6 ?p1 = Some (File bm)" "node_of s6 ?p2 = Some (File br)"
    "node_of s6 ?p3 = Some (File bb)"
    unfolding s6
    using node_of_write[OF _ d3, of ?p1 l1] node_of_write[OF _ d3, of ?p2 l2]
      node_of_write[OF r3' d3] r1 r2 res4 ne n4 by simp_all
  have n': "node_of s' ?p1 = Some (File bm)" "node_of s' ?p2 = Some (File br)"
    "node_of s' ?p3 = Some (File bb)" "node_of s' ?p4 = Some (File bo)"
    unfolding s'
    using node_of_write[OF _ d4, of ?p1 l1] node_of_write[OF _ d4, of ?p2 l2]
      node_of_write[OF _ d4, of ?p3 l3] node_of_write[OF r4' d4] r1 r2 r3 res6 ne n6
    by simp_all
  \<comment> \<open>the image that was read is still at the image path\<close>
  from io obtain b0 where b0: "node_of s7 im_path = Some (File b0)" "pil_decode C b0 = Some im0"
    by (auto simp: image_open_success)
  from b0(2) have "b0 \<noteq> []"
    by (auto simp: pil_decode_def split: if_splits)
  from node_of_Some[OF b0(1)] obtain li where li: "resolve s7 im_path = Inr li"
    "node_at (fs s7) li = Some (File b0)"
    by blast
  have "li \<noteq> l4"
  proof
    assume "li = l4"
    with li(2) d4(2) have "Some (File b0) = Some (File [])"
      by (simp add: s7 node_at_def)
    with \<open>b0 \<noteq> []\<close> show False by simp
  qed
  have d7: "fs s7 l4 \<noteq> Some Dir"
    by (simp add: s7)
  have "s' = s7\<lparr>fs := (fs s7)(l4 \<mapsto> File bo)\<rparr>"
    by (simp add: s' s7)
  with node_of_write[OF li(1) d7 d4(2), of bo] \<open>li \<noteq> l4\<close> b0(1)
  have "node_of s' im_path = Some (File b0)"
    by simp
  with b0(2) have "image_open C im_path s' = (Inr im0, s')"
    by (auto simp: image_open_success)
  with bm br bb bo n' show ?thesis
    by blast
qed

lemma save_inpainted_image_success:
  assumes "save_inpainted_image C i w s = (Inr u, s')"
  shows "\<exists>bi. encode_bmp C i = Some bi
           \<and> node_of s' (path_join w ''inpainted_image.bmp'') = Some (File bi)"
proof -
  from assms obtain f s1 where o: "open_wb (path_join w ''inpainted_image.bmp'') s = (Inr f, s1)"
    and sv: "image_save C i f s1 = (Inr u, s')"
    unfolding save_inpainted_image_def bind_ex_success by auto
  from write_step[OF o sv] obtain bi where bi: "encode_bmp C i = Some bi"
    and r: "resolve s (path_join w ''inpainted_image.bmp'') = Inr f"
    and d: "fs s f \<noteq> Some Dir" "f \<noteq> []"
    and s': "s' = s\<lparr>fs := (fs s)(f \<mapsto> File bi)\<rparr>"
    by blast
  from node_of_write[OF r d, of bi] s' bi show ?thesis
    by simp
qed

subsection \<open>What the collaborators receive\<close>

lemma resized_calls_refl: "resized_calls K s s"
  by (simp add: resized_calls_def)

lemma resized_calls_trans:
  "resized_calls K s s' \<Longrightarrow> resized_calls K s' s'' \<Longrightarrow> resized_calls K s s''"
  by (auto simp: resized_calls_def)

lemma resized_calls_same: "calls s' = calls s \<Longrightarrow> resized_calls K s s'"
  by (simp add: resized_calls_def)

lemma resized_calls_bind:
  assumes "\<And>s. resized_calls K s (snd (m s))"
    and "\<And>x s. resized_calls K s (snd (f x s))"
  shows "resized_calls K s (snd (bind_ex m f s))"
proof (cases "m s")
  case (Pair r s')
  then have first: "resized_calls K s s'"
    using assms(1)[of s] by simp
  show ?thesis
  proof (cases r)
    case (Inl e)
    with Pair first show ?thesis by (simp add: bind_ex_def)
  next
    case (Inr x)
    with Pair have "bind_ex m f s = f x s'" by (simp add: bind_ex_def)
    with first assms(2)[of s' x] show ?thesis by (auto intro: resized_calls_trans)
  qed
qed

lemma resized_calls_invoke: "resized_call K c \<Longrightarrow> resized_calls K s (snd (invoke c r s))"
  by (simp add: invoke_def resized_calls_def)

lemma resized_calls_image_open: "resized_calls K s (snd (image_open C p s))"
  by (simp add: image_open_state resized_calls_refl)

lemma resized_calls_get_attr: "resized_calls K s (snd (get_attr f nm s))"
  by (simp add: get_attr_def resized_calls_refl split: option.splits)

lemma resized_calls_return: "resized_calls K s (snd (return_ex x s))"
  by (simp add: return_ex_def resized_calls_refl)

lemma resized_calls_raise: "resized_calls K s (snd (raise_ex x s))"
  by (simp add: raise_ex_def resized_calls_refl)

lemma resized_calls_calc: "resized_calls K s (snd (calc_diffedit_mask C lat p1 p2 n seed s))"
  by (auto simp: calc_diffedit_mask_def bind_ex_def invoke_def resized_calls_def resized_call_def
      split: sum.splits prod.splits)

lemma resized_calls_get_mask: "resized_calls K s (snd (get_mask C K im_path p1 p2 seed n s))"
  unfolding get_mask_def Let_def
  by (intro resized_calls_bind resized_calls_image_open resized_calls_invoke resized_calls_calc
        resized_calls_get_attr resized_calls_return)
     (simp_all add: resized_call_def im_size_resize)

lemma resized_calls_create_mask: "resized_calls K s (snd (create_mask C K im_path p1 p2 n seed s))"
  by (simp add: create_mask_def resized_calls_get_mask resized_calls_raise)

lemma resized_calls_inpaint:
  "resized_calls K s (snd (inpaint_mask_with_prompt C K im_path msk p2 seed s))"
  unfolding inpaint_mask_with_prompt_def Let_def
  by (auto intro!: resized_calls_bind resized_calls_image_open resized_calls_invoke resized_calls_raise
        simp: resized_call_def im_size_resize)

lemma resized_calls_save_mask: "resized_calls K s (snd (save_mask C K m r b im_path w s))"
  by (rule resized_calls_same, rule calls_only_files_changed, rule save_mask_frame)

lemma resized_calls_save_inpainted: "resized_calls K s (snd (save_inpainted_image C i w s))"
  by (rule resized_calls_same, rule calls_only_files_changed, rule save_inpainted_image_frame)

lemma resized_calls_load_mask: "resized_calls K s (snd (load_mask C w s))"
  by (simp add: load_mask_state resized_calls_refl)

lemma resized_calls_demo:
  "resized_calls K s (snd (demo_diffedit C K im_path p1 p2 n seed s))"
  unfolding demo_diffedit_def Let_def
  by (auto intro!: resized_calls_bind resized_calls_image_open resized_calls_create_mask
        resized_calls_save_mask resized_calls_load_mask resized_calls_inpaint
        resized_calls_save_inpainted resized_calls_return resized_calls_raise)

lemma node_of_frame:
  assumes "only_files_changed A s s'" and "\<And>loc. resolve s p = Inr loc \<Longrightarrow> loc \<notin> A"
  shows "node_of s' p = node_of s p"
proof (cases "resolve s p")
  case (Inl e)
  with resolve_only_files_changed[OF assms(1), of p] have "\<And>x. resolve s' p \<noteq> Inr x"
    by simp
  then obtain e' where "resolve s' p = Inl e'"
    by (cases "resolve s' p") auto
  with Inl show ?thesis by (simp add: node_of_def)
next
  case (Inr loc)
  with resolve_only_files_changed[OF assms(1), of p loc] have "resolve s' p = Inr loc"
    by simp
  moreover from Inr have "loc \<notin> A" by (rule assms(2))
  with assms(1) have "fs s' loc = fs s loc"
    by (simp add: only_files_changed_def)
  ultimately show ?thesis using Inr by (simp add: node_of_def node_at_def)
qed

subsection \<open>Mask generation\<close>

text \<open>
  Claim C2. When nothing exists at the image path, \<open>create_mask\<close> raises the
  error that names the missing path and leaves the state as it was: no file is
  written, no collaborator is called, no attribute of the generator is set.
\<close>

theorem create_mask_missing_path:
  "\<not> path_exists s im_path \<Longrightarrow>
     create_mask C K im_path p1 p2 n seed s = (Inl (path_error im_path), s)"
  by (simp add: create_mask_def raise_ex_def)

theorem create_mask_missing_path_witness:
  "\<not> path_exists ex_session ''cat.png''
   \<and> create_mask ex_components ex_constants ''cat.png'' ''dog'' ''cat'' 2 42 ex_session
       = (Inl (ValueError ''Image path cat.png does not exist. Check the provided path''),
          ex_session)"
proof -
  have missing: "\<not> path_exists ex_session ''cat.png''"
    by (simp add: run_defs)
  from create_mask_missing_path[OF missing, of ex_components ex_constants "''dog''" "''cat''" 2 42]
    missing
  show ?thesis by (simp add: path_error_def)
qed

text \<open>
  Claim C6. \<open>refine_mask\<close> is a stub: for every mask, iteration count and keyword
  arguments it returns \<open>None\<close> and leaves the state as it was.
\<close>

theorem refine_mask_stub:
  "refine_mask mask_img n kwargs s = (Inr None, s)"
  by (simp add: refine_mask_def return_ex_def)

theorem refine_mask_stub_witness:
  "refine_mask ex_mask 10 () ex_session = (Inr None, ex_session)"
  using refine_mask_stub[of ex_mask 10 "()" ex_session] by simp

subsection \<open>Persistence\<close>

text \<open>
  Claim C3, amended. \<open>load_mask\<close> checks the three mask files only. When one of
  \<open>mask.bmp\<close>, \<open>rough_mask.bmp\<close> and \<open>blended_mask.bmp\<close> is missing from the
  working directory it raises the error that names the directory, and the state is
  as before; when the three are files that hold images it returns the three
  images, whether \<open>original_image.bmp\<close> is there or not.
\<close>

theorem load_mask_checks_three_masks:
  "(node_of s (path_join w ''mask.bmp'') = None \<or> node_of s (path_join w ''rough_mask.bmp'') = None
      \<or> node_of s (path_join w ''blended_mask.bmp'') = None
      \<longrightarrow> load_mask C w s = (Inl (masks_error w), s))
   \<and> (node_of s (path_join w ''mask.bmp'') = Some (File bm) \<and> pil_decode C bm = Some m
      \<and> node_of s (path_join w ''rough_mask.bmp'') = Some (File br) \<and> pil_decode C br = Some r
      \<and> node_of s (path_join w ''blended_mask.bmp'') = Some (File bb) \<and> pil_decode C bb = Some b
      \<longrightarrow> load_mask C w s = (Inr (m, r, b), s))"
proof -
  have found: "load_mask C w s = (Inr (m, r, b), s)"
    if "node_of s (path_join w ''mask.bmp'') = Some (File bm)" "pil_decode C bm = Some m"
      "node_of s (path_join w ''rough_mask.bmp'') = Some (File br)" "pil_decode C br = Some r"
      "node_of s (path_join w ''blended_mask.bmp'') = Some (File bb)" "pil_decode C bb = Some b"
  proof -
    from that have "image_open C (path_join w ''mask.bmp'') s = (Inr m, s)"
      "image_open C (path_join w ''rough_mask.bmp'') s = (Inr r, s)"
      "image_open C (path_join w ''blended_mask.bmp'') s = (Inr b, s)"
      by (simp_all add: image_open_success)
    with that show ?thesis
      by (simp add: load_mask_def Let_def path_exists_def bind_ex_def return_ex_def)
  qed
  show ?thesis
    using found by (auto simp: load_mask_def Let_def path_exists_def raise_ex_def)
qed

theorem load_mask_checks_three_masks_witness:
  "node_of ex_session (path_join ''work'' ''rough_mask.bmp'') = None
   \<and> load_mask ex_components ''work'' ex_session
       = (Inl (ValueError ''Mask files not found in work. Run create_mask to generate the mask.''),
          ex_session)
   \<and> node_of ex_partial (path_join ''work'' ''mask.bmp'') = Some (File [2, 2, 1, 1, 0, 0, 1])
   \<and> pil_decode ex_components [2, 2, 1, 1, 0, 0, 1] = Some ex_mask
   \<and> node_of ex_partial (path_join ''work'' ''rough_mask.bmp'') = Some (File [2, 2, 1, 1, 1, 0, 1])
   \<and> pil_decode ex_components [2, 2, 1, 1, 1, 0, 1] = Some ex_rough
   \<and> node_of ex_partial (path_join ''work'' ''blended_mask.bmp'') = Some (File [2, 2, 1, 5, 6, 7, 8])
   \<and> pil_decode ex_components [2, 2, 1, 5, 6, 7, 8] = Some ex_blended
   \<and> load_mask ex_components ''work'' ex_partial = (Inr (ex_mask, ex_rough, ex_blended), ex_partial)"
proof -
  have missing: "node_of ex_session (path_join ''work'' ''rough_mask.bmp'') = None"
    by (simp add: run_defs)
  have files:
    "node_of ex_partial (path_join ''work'' ''mask.bmp'') = Some (File [2, 2, 1, 1, 0, 0, 1])"
    "node_of ex_partial (path_join ''work'' ''rough_mask.bmp'') = Some (File [2, 2, 1, 1, 1, 0, 1])"
    "node_of ex_partial (path_join ''work'' ''blended_mask.bmp'') = Some (File [2, 2, 1, 5, 6, 7, 8])"
    by (simp_all add: ex_partial_def node_of_def resolve_def node_at_def step_def path_join_def)
  have images: "pil_decode ex_components [2, 2, 1, 1, 0, 0, 1] = Some ex_mask"
    "pil_decode ex_components [2, 2, 1, 1, 1, 0, 1] = Some ex_rough"
    "pil_decode ex_components [2, 2, 1, 5, 6, 7, 8] = Some ex_blended"
    by (simp_all add: pil_decode_def ex_components_def ex_decode_def ex_mask_def ex_rough_def
        ex_blended_def)
  from load_mask_checks_three_masks[where s = ex_session and w = "''work''" and C = ex_components]
    load_mask_checks_three_masks[where s = ex_partial and w = "''work''" and C = ex_components
      and bm = "[2, 2, 1, 1, 0, 0, 1]" and m = ex_mask and br = "[2, 2, 1, 1, 1, 0, 1]"
      and r = ex_rough and bb = "[2, 2, 1, 5, 6, 7, 8]" and b = ex_blended]
    missing files images
  show ?thesis by (simp add: masks_error_def)
qed

text \<open>
  The claim as it was first put also asks \<open>load_mask\<close> to fail when
  \<open>original_image.bmp\<close> is the missing file. It does not: in a directory that
  holds the three masks and no \<open>original_image.bmp\<close> the three images are returned.
\<close>

theorem load_mask_partial_directory_counterexample:
  "node_of ex_partial (path_join ''work'' ''original_image.bmp'') = None
   \<and> load_mask ex_components ''work'' ex_partial
       = (Inr (\<lparr>im_size = (2, 2), im_mode = ''L'', im_data = [1, 0, 0, 1]\<rparr>,
               \<lparr>im_size = (2, 2), im_mode = ''L'', im_data = [1, 1, 0, 1]\<rparr>,
               \<lparr>im_size = (2, 2), im_mode = ''L'', im_data = [5, 6, 7, 8]\<rparr>), ex_partial)"
  by (simp add: load_mask_def image_open_def bind_ex_def read_rb_def raise_ex_def return_ex_def
      Let_def path_exists_def node_of_def resolve_def node_at_def step_def pil_decode_def
      path_join_def ex_components_def ex_decode_def ex_partial_def)

text \<open>
  Claim C4, amended. Save, then load: when \<open>save_mask\<close> has succeeded,
  \<open>load_mask\<close> on the same working directory returns, for the mask, the rough
  mask and the blended mask, the image that the bitmap codec reads from what it
  wrote for the image saved. These are the three images saved whenever the codec
  loses nothing of them.
\<close>

theorem save_load_roundtrip:
  assumes "save_mask C K m r b im_path w s = (Inr (), s')"
  shows "\<exists>bm br bb. encode_bmp C m = Some bm \<and> encode_bmp C r = Some br \<and> encode_bmp C b = Some bb
           \<and> (pil_decode C bm = Some m' \<and> pil_decode C br = Some r' \<and> pil_decode C bb = Some b'
                \<longrightarrow> load_mask C w s' = (Inr (m', r', b'), s'))
           \<and> (lossless C m \<and> lossless C r \<and> lossless C b
                \<longrightarrow> load_mask C w s' = (Inr (m, r, b), s'))"
proof -
  from save_mask_success[OF assms] obtain bm br bb where
    written: "encode_bmp C m = Some bm" "encode_bmp C r = Some br" "encode_bmp C b = Some bb"
    and files: "node_of s' (path_join w ''mask.bmp'') = Some (File bm)"
       "node_of s' (path_join w ''rough_mask.bmp'') = Some (File br)"
       "node_of s' (path_join w ''blended_mask.bmp'') = Some (File bb)"
    by blast
  have loaded: "load_mask C w s' = (Inr (x, y, z), s')"
    if "pil_decode C bm = Some x" "pil_decode C br = Some y" "pil_decode C bb = Some z" for x y z
  proof -
    from that files have "image_open C (path_join w ''mask.bmp'') s' = (Inr x, s')"
      "image_open C (path_join w ''rough_mask.bmp'') s' = (Inr y, s')"
      "image_open C (path_join w ''blended_mask.bmp'') s' = (Inr z, s')"
      by (simp_all add: image_open_success)
    with files show ?thesis
      by (simp add: load_mask_def Let_def path_exists_def bind_ex_def return_ex_def)
  qed
  have "load_mask C w s' = (Inr (m, r, b), s')"
    if "lossless C m" "lossless C r" "lossless C b"
    using that written by (intro loaded) (simp_all add: lossless_def)
  with written loaded show ?thesis
    by blast
qed

theorem save_load_roundtrip_witness:
  "fst (save_mask ex_components ex_constants ex_mask ex_rough ex_blended ''dog.png'' ''out'' ex_session)
     = Inr ()
   \<and> lossless ex_components ex_mask \<and> lossless ex_components ex_rough
   \<and> lossless ex_components ex_blended
   \<and> fst (load_mask ex_components ''out''
        (snd (save_mask ex_components ex_constants ex_mask ex_rough ex_blended ''dog.png'' ''out''
                ex_session)))
       = Inr (ex_mask, ex_rough, ex_blended)"
proof -
  have saved: "fst (save_mask ex_components ex_constants ex_mask ex_rough ex_blended ''dog.png''
      ''out'' ex_session) = Inr ()"
    by (simp add: run_defs ex_mask_def ex_rough_def ex_blended_def)
  then have run: "save_mask ex_components ex_constants ex_mask ex_rough ex_blended ''dog.png''
      ''out'' ex_session
      = (Inr (), snd (save_mask ex_components ex_constants ex_mask ex_rough ex_blended ''dog.png''
                        ''out'' ex_session))"
    by (simp add: prod_eq_iff)
  have kept: "lossless ex_components ex_mask" "lossless ex_components ex_rough"
    "lossless ex_components ex_blended"
    by (simp_all add: lossless_def pil_decode_def ex_components_def ex_encode_def ex_decode_def
        mode_code_def ex_mask_def ex_rough_def ex_blended_def)
  from save_load_roundtrip[OF run] kept
  have "load_mask ex_components ''out''
        (snd (save_mask ex_components ex_constants ex_mask ex_rough ex_blended ''dog.png'' ''out''
                ex_session))
       = (Inr (ex_mask, ex_rough, ex_blended),
          snd (save_mask ex_components ex_constants ex_mask ex_rough ex_blended ''dog.png'' ''out''
                ex_session))"
    by blast
  with saved kept show ?thesis by simp
qed

text \<open>
  The claim as it was first put has every triple of images come back as it was
  saved. A mask in mode \<open>RGBA\<close> is saved and loaded without an exception, and
  comes back in mode \<open>RGB\<close>, without its fourth channel.
\<close>

theorem save_load_roundtrip_counterexample:
  "fst (save_mask ex_components ex_constants ex_rgba ex_rough ex_blended ''dog.png'' ''out'' ex_session)
     = Inr ()
   \<and> fst (load_mask ex_components ''out''
        (snd (save_mask ex_components ex_constants ex_rgba ex_rough ex_blended ''dog.png'' ''out''
                ex_session)))
       = Inr (\<lparr>im_size = (1, 1), im_mode = ''RGB'', im_data = [10, 20, 30]\<rparr>, ex_rough, ex_blended)
   \<and> \<lparr>im_size = (1, 1), im_mode = ''RGB'', im_data = [10, 20, 30]\<rparr> \<noteq> ex_rgba"
  by (simp add: run_defs ex_rgba_def ex_rough_def ex_blended_def)

text \<open>
  Claim C8. \<open>save_mask\<close> changes nothing but the files that \<open>mask.bmp\<close>,
  \<open>rough_mask.bmp\<close>, \<open>blended_mask.bmp\<close> and \<open>original_image.bmp\<close> name in the
  working directory, and \<open>save_inpainted_image\<close> nothing but
  \<open>inpainted_image.bmp\<close> there, under whatever spelling of their paths; no
  directory comes or goes. When they succeed each of these files has been written:
  the three masks and the inpainted image hold the encoding of the image that
  was passed, and \<open>original_image.bmp\<close> holds the encoding of the image at the
  image path, resized to the working resolution.
\<close>

theorem persistence_write_frame:
  "only_files_changed
     (places s {path_join w ''mask.bmp'', path_join w ''rough_mask.bmp'',
                path_join w ''blended_mask.bmp'', path_join w ''original_image.bmp''}) s
     (snd (save_mask C K m r b im_path w s))
   \<and> only_files_changed (places s {path_join w ''inpainted_image.bmp''}) s
        (snd (save_inpainted_image C i w s))
   \<and> (save_mask C K m r b im_path w s = (Inr (), s') \<longrightarrow>
        node_of s' (path_join w ''mask.bmp'') = map_option File (encode_bmp C m)
      \<and> node_of s' (path_join w ''rough_mask.bmp'') = map_option File (encode_bmp C r)
      \<and> node_of s' (path_join w ''blended_mask.bmp'') = map_option File (encode_bmp C b)
      \<and> encode_bmp C m \<noteq> None \<and> encode_bmp C r \<noteq> None \<and> encode_bmp C b \<noteq> None
      \<and> (\<exists>im0 bo. image_open C im_path s' = (Inr im0, s')
            \<and> encode_bmp C (image_resize C (working_size K) im0) = Some bo
            \<and> node_of s' (path_join w ''original_image.bmp'') = Some (File bo)))
   \<and> (save_inpainted_image C i w s = (Inr (), s'') \<longrightarrow>
        node_of s'' (path_join w ''inpainted_image.bmp'') = map_option File (encode_bmp C i)
      \<and> encode_bmp C i \<noteq> None)"
proof -
  have masks: "node_of s' (path_join w ''mask.bmp'') = map_option File (encode_bmp C m)
      \<and> node_of s' (path_join w ''rough_mask.bmp'') = map_option File (encode_bmp C r)
      \<and> node_of s' (path_join w ''blended_mask.bmp'') = map_option File (encode_bmp C b)
      \<and> encode_bmp C m \<noteq> None \<and> encode_bmp C r \<noteq> None \<and> encode_bmp C b \<noteq> None
      \<and> (\<exists>im0 bo. image_open C im_path s' = (Inr im0, s')
            \<and> encode_bmp C (image_resize C (working_size K) im0) = Some bo
            \<and> node_of s' (path_join w ''original_image.bmp'') = Some (File bo))"
    if "save_mask C K m r b im_path w s = (Inr (), s')"
    using save_mask_success[OF that] by auto
  have inpainted: "node_of s'' (path_join w ''inpainted_image.bmp'') = map_option File (encode_bmp C i)
      \<and> encode_bmp C i \<noteq> None"
    if "save_inpainted_image C i w s = (Inr (), s'')"
    using save_inpainted_image_success[OF that] by auto
  from masks inpainted show ?thesis
    using save_mask_frame[of s w C K m r b im_path] save_inpainted_image_frame[of s w C i]
    by blast
qed

theorem persistence_write_frame_witness:
  "save_mask ex_components ex_constants ex_mask ex_rough ex_blended ''dog.png'' ''out'' ex_session
     = (Inr (), snd (save_mask ex_components ex_constants ex_mask ex_rough ex_blended ''dog.png''
                       ''out'' ex_session))
   \<and> save_inpainted_image ex_components ex_blended ''out'' ex_session
     = (Inr (), snd (save_inpainted_image ex_components ex_blended ''out'' ex_session))
   \<and> node_of (snd (save_mask ex_components ex_constants ex_mask ex_rough ex_blended ''dog.png''
                     ''out'' ex_session)) (path_join ''out'' ''mask.bmp'')
     = Some (File [2, 2, 1, 1, 0, 0, 1])
   \<and> (\<exists>im0 bo. image_open ex_components ''dog.png''
                  (snd (save_mask ex_components ex_constants ex_mask ex_rough ex_blended ''dog.png''
                          ''out'' ex_session))
                = (Inr im0, snd (save_mask ex_components ex_constants ex_mask ex_rough ex_blended
                                   ''dog.png'' ''out'' ex_session))
        \<and> encode_bmp ex_components (image_resize ex_components (working_size ex_constants) im0)
            = Some bo
        \<and> node_of (snd (save_mask ex_components ex_constants ex_mask ex_rough ex_blended ''dog.png''
                          ''out'' ex_session)) (path_join ''out'' ''original_image.bmp'')
            = Some (File bo))
   \<and> node_of (snd (save_inpainted_image ex_components ex_blended ''out'' ex_session))
        (path_join ''out'' ''inpainted_image.bmp'')
     = Some (File [2, 2, 1, 5, 6, 7, 8])
   \<and> only_files_changed
        (places ex_session {path_join ''out'' ''mask.bmp'', path_join ''out'' ''rough_mask.bmp'',
           path_join ''out'' ''blended_mask.bmp'', path_join ''out'' ''original_image.bmp''})
        ex_session
        (snd (save_mask ex_components ex_constants ex_mask ex_rough ex_blended ''dog.png'' ''out''
               ex_session))
   \<and> only_files_changed (places ex_session {path_join ''out'' ''inpainted_image.bmp''}) ex_session
        (snd (save_inpainted_image ex_components ex_blended ''out'' ex_session))"
proof -
  have "fst (save_mask ex_components ex_constants ex_mask ex_rough ex_blended ''dog.png''
      ''out'' ex_session) = Inr ()"
    by (simp add: run_defs ex_mask_def ex_rough_def ex_blended_def)
  then have run: "save_mask ex_components ex_constants ex_mask ex_rough ex_blended ''dog.png''
      ''out'' ex_session
      = (Inr (), snd (save_mask ex_components ex_constants ex_mask ex_rough ex_blended ''dog.png''
                        ''out'' ex_session))"
    by (simp add: prod_eq_iff)
  have "fst (save_inpainted_image ex_components ex_blended ''out'' ex_session) = Inr ()"
    by (simp add: run_defs ex_blended_def)
  then have run': "save_inpainted_image ex_components ex_blended ''out'' ex_session
      = (Inr (), snd (save_inpainted_image ex_components ex_blended ''out'' ex_session))"
    by (simp add: prod_eq_iff)
  have enc: "encode_bmp ex_components ex_mask = Some [2, 2, 1, 1, 0, 0, 1]"
    "encode_bmp ex_components ex_blended = Some [2, 2, 1, 5, 6, 7, 8]"
    by (simp_all add: ex_components_def ex_encode_def mode_code_def ex_mask_def ex_blended_def)
  note inst = persistence_write_frame[where C = ex_components and K = ex_constants and m = ex_mask
      and r = ex_rough and b = ex_blended and i = ex_blended and im_path = "''dog.png''"
      and w = "''out''" and s = ex_session
      and s' = "snd (save_mask ex_components ex_constants ex_mask ex_rough ex_blended ''dog.png''
                       ''out'' ex_session)"
      and s'' = "snd (save_inpainted_image ex_components ex_blended ''out'' ex_session)"]
  from inst run run' show ?thesis
    unfolding enc by (simp only: option.map simp_thms)
qed

subsection \<open>The whole workflow\<close>

text \<open>
  Claim C5. \<open>demo_diffedit\<close> chains the workflow: it returns a list exactly when
  the image path exists and, one after the other from the state each step leaves,
  the image is opened, \<open>create_mask\<close> succeeds, \<open>save_mask\<close> stores the three
  masks in the default working directory, \<open>load_mask\<close> reads them back from
  there, \<open>inpaint_mask_with_prompt\<close> succeeds on the loaded mask with the add
  prompt and the seed, and \<open>save_inpainted_image\<close> stores its result; the list
  is then the resized original, the blended mask that \<open>create_mask\<close> returned, and
  the inpainted image.
\<close>

theorem demo_diffedit_chain:
  "demo_diffedit C K im_path p1 p2 n seed s = (Inr out, s') \<longleftrightarrow>
     (\<exists>im0 mask_img rough_img blended_img s1 s2 mask_loaded rough_loaded blended_loaded
         inpainted s3.
        path_exists s im_path
      \<and> image_open C im_path s = (Inr im0, s)
      \<and> create_mask C K im_path p1 p2 n seed s = (Inr (mask_img, rough_img, blended_img), s1)
      \<and> save_mask C K mask_img rough_img blended_img im_path ''./'' s1 = (Inr (), s2)
      \<and> load_mask C ''./'' s2 = (Inr (mask_loaded, rough_loaded, blended_loaded), s2)
      \<and> inpaint_mask_with_prompt C K im_path mask_loaded p2 seed s2 = (Inr inpainted, s3)
      \<and> save_inpainted_image C inpainted ''./'' s3 = (Inr (), s')
      \<and> out = [image_resize C (working_size K) im0, blended_img, inpainted])"
  (is "?L \<longleftrightarrow> ?R")
proof
  assume L: ?L
  then have ex: "path_exists s im_path"
    by (auto simp: demo_diffedit_def raise_ex_def split: if_splits)
  with L obtain im0 sa where o: "image_open C im_path s = (Inr im0, sa)"
    and 1: "bind_ex (create_mask C K im_path p1 p2 n seed) (\<lambda>(mask_img, rough_img, blended_img).
             bind_ex (save_mask C K mask_img rough_img blended_img im_path ''./'') (\<lambda>_.
             bind_ex (load_mask C ''./'') (\<lambda>(mask_loaded, rough_loaded, blended_loaded).
             bind_ex (inpaint_mask_with_prompt C K im_path mask_loaded p2 seed) (\<lambda>inpainted_image.
             bind_ex (save_inpainted_image C inpainted_image ''./'') (\<lambda>_.
               return_ex [image_resize C (working_size K) im0, blended_img, inpainted_image])))))
           sa = (Inr out, s')"
    by (auto simp: demo_diffedit_def default_workdir_def Let_def bind_ex_success[of "image_open C im_path"])
  from o have sa: "sa = s" by (rule image_open_success_state)
  from 1 obtain m r b s1 where c: "create_mask C K im_path p1 p2 n seed s = (Inr (m, r, b), s1)"
    and 2: "bind_ex (save_mask C K m r b im_path ''./'') (\<lambda>_.
             bind_ex (load_mask C ''./'') (\<lambda>(mask_loaded, rough_loaded, blended_loaded).
             bind_ex (inpaint_mask_with_prompt C K im_path mask_loaded p2 seed) (\<lambda>inpainted_image.
             bind_ex (save_inpainted_image C inpainted_image ''./'') (\<lambda>_.
               return_ex [image_resize C (working_size K) im0, b, inpainted_image]))))
           s1 = (Inr out, s')"
    unfolding sa bind_ex_success[of "create_mask C K im_path p1 p2 n seed"] by auto
  from 2 obtain s2 where sv: "save_mask C K m r b im_path ''./'' s1 = (Inr (), s2)"
    and 3: "bind_ex (load_mask C ''./'') (\<lambda>(mask_loaded, rough_loaded, blended_loaded).
             bind_ex (inpaint_mask_with_prompt C K im_path mask_loaded p2 seed) (\<lambda>inpainted_image.
             bind_ex (save_inpainted_image C inpainted_image ''./'') (\<lambda>_.
               return_ex [image_resize C (working_size K) im0, b, inpainted_image])))
           s2 = (Inr out, s')"
    unfolding bind_ex_success[of "save_mask C K m r b im_path ''./''"] by auto
  from 3 obtain ml rl bl sb where ld: "load_mask C ''./'' s2 = (Inr (ml, rl, bl), sb)"
    and 4: "bind_ex (inpaint_mask_with_prompt C K im_path ml p2 seed) (\<lambda>inpainted_image.
             bind_ex (save_inpainted_image C inpainted_image ''./'') (\<lambda>_.
               return_ex [image_resize C (working_size K) im0, b, inpainted_image]))
           sb = (Inr out, s')"
    unfolding bind_ex_success[of "load_mask C ''./''"] by auto
  from ld have sb: "sb = s2" by (rule load_mask_success_state)
  from 4 obtain inp s3 where ip: "inpaint_mask_with_prompt C K im_path ml p2 seed s2 = (Inr inp, s3)"
    and 5: "bind_ex (save_inpainted_image C inp ''./'') (\<lambda>_.
               return_ex [image_resize C (working_size K) im0, b, inp]) s3 = (Inr out, s')"
    unfolding sb bind_ex_success[of "inpaint_mask_with_prompt C K im_path ml p2 seed"] by auto
  from 5 have si: "save_inpainted_image C inp ''./'' s3 = (Inr (), s')"
    and out: "out = [image_resize C (working_size K) im0, b, inp]"
    unfolding bind_ex_success[of "save_inpainted_image C inp ''./''"]
    by (auto simp: return_ex_def)
  from ex o c sv ld ip si out show ?R
    unfolding sa sb by blast
next
  assume ?R
  then show ?L
    unfolding demo_diffedit_def default_workdir_def Let_def
    by (auto simp: bind_ex_def return_ex_def)
qed

theorem demo_diffedit_chain_witness:
  "fst (demo_diffedit ex_components ex_constants ''dog.png'' ''dog'' ''cat'' 2 42 ex_session)
     = Inr [\<lparr>im_size = (2, 2), im_mode = ''L'', im_data = [9, 8, 7, 6]\<rparr>,
            \<lparr>im_size = (2, 2), im_mode = ''L'', im_data = [18, 16, 14, 12]\<rparr>,
            \<lparr>im_size = (2, 2), im_mode = ''L'', im_data = [81, 64, 49, 36]\<rparr>]
   \<and> (\<exists>im0 mask_img rough_img blended_img s1 s2 mask_loaded rough_loaded blended_loaded
         inpainted s3.
        path_exists ex_session ''dog.png''
      \<and> image_open ex_components ''dog.png'' ex_session = (Inr im0, ex_session)
      \<and> create_mask ex_components ex_constants ''dog.png'' ''dog'' ''cat'' 2 42 ex_session
          = (Inr (mask_img, rough_img, blended_img), s1)
      \<and> save_mask ex_components ex_constants mask_img rough_img blended_img ''dog.png'' ''./'' s1
          = (Inr (), s2)
      \<and> load_mask ex_components ''./'' s2 = (Inr (mask_loaded, rough_loaded, blended_loaded), s2)
      \<and> inpaint_mask_with_prompt ex_components ex_constants ''dog.png'' mask_loaded ''cat'' 42 s2
          = (Inr inpainted, s3)
      \<and> save_inpainted_image ex_components inpainted ''./'' s3
          = (Inr (), snd (demo_diffedit ex_components ex_constants ''dog.png'' ''dog'' ''cat'' 2 42
                            ex_session))
      \<and> [\<lparr>im_size = (2, 2), im_mode = ''L'', im_data = [9, 8, 7, 6]\<rparr>,
          \<lparr>im_size = (2, 2), im_mode = ''L'', im_data = [18, 16, 14, 12]\<rparr>,
          \<lparr>im_size = (2, 2), im_mode = ''L'', im_data = [81, 64, 49, 36]\<rparr>]
          = [image_resize ex_components (working_size ex_constants) im0, blended_img, inpainted])"
proof -
  have result: "fst (demo_diffedit ex_components ex_constants ''dog.png'' ''dog'' ''cat'' 2 42
      ex_session)
     = Inr [\<lparr>im_size = (2, 2), im_mode = ''L'', im_data = [9, 8, 7, 6]\<rparr>,
            \<lparr>im_size = (2, 2), im_mode = ''L'', im_data = [18, 16, 14, 12]\<rparr>,
            \<lparr>im_size = (2, 2), im_mode = ''L'', im_data = [81, 64, 49, 36]\<rparr>]"
    by (simp add: run_defs)
  then have run: "demo_diffedit ex_components ex_constants ''dog.png'' ''dog'' ''cat'' 2 42 ex_session
     = (Inr [\<lparr>im_size = (2, 2), im_mode = ''L'', im_data = [9, 8, 7, 6]\<rparr>,
             \<lparr>im_size = (2, 2), im_mode = ''L'', im_data = [18, 16, 14, 12]\<rparr>,
             \<lparr>im_size = (2, 2), im_mode = ''L'', im_data = [81, 64, 49, 36]\<rparr>],
        snd (demo_diffedit ex_components ex_constants ''dog.png'' ''dog'' ''cat'' 2 42 ex_session))"
    by (simp add: prod_eq_iff)
  from demo_diffedit_chain[THEN iffD1, OF run] result show ?thesis
    by (intro conjI)
qed

text \<open>
  Claim C7. The image read from the image path is resized to the working
  resolution before anything else is done with it: every call that
  \<open>get_mask\<close>, \<open>create_mask\<close>, \<open>inpaint_mask_with_prompt\<close> and
  \<open>demo_diffedit\<close> make to a collaborator with that image passes an image of
  size \<open>IMG_RESIZE_DIM\<close> by \<open>IMG_RESIZE_DIM\<close>. The \<open>original_image.bmp\<close> that a
  successful \<open>save_mask\<close> leaves is the encoding of the image at the image path,
  resized to that size; where the image path is none of the four files written,
  that image is the one that was at the image path before.
\<close>

theorem source_image_always_resized:
  "resized_calls K s (snd (get_mask C K im_path p1 p2 seed n s))
   \<and> resized_calls K s (snd (create_mask C K im_path p1 p2 n seed s))
   \<and> resized_calls K s (snd (inpaint_mask_with_prompt C K im_path msk p2 seed s))
   \<and> resized_calls K s (snd (demo_diffedit C K im_path p1 p2 n seed s))
   \<and> (save_mask C K m r b im_path w s = (Inr (), s') \<longrightarrow>
        (\<exists>im0 bo. image_open C im_path s' = (Inr im0, s')
           \<and> im_size (image_resize C (working_size K) im0) = (IMG_RESIZE_DIM K, IMG_RESIZE_DIM K)
           \<and> encode_bmp C (image_resize C (working_size K) im0) = Some bo
           \<and> node_of s' (path_join w ''original_image.bmp'') = Some (File bo)
           \<and> ((\<forall>loc. resolve s im_path = Inr loc \<longrightarrow>
                  loc \<notin> places s {path_join w ''mask.bmp'', path_join w ''rough_mask.bmp'',
                            path_join w ''blended_mask.bmp'', path_join w ''original_image.bmp''})
                \<longrightarrow> image_open C im_path s = (Inr im0, s))))"
proof -
  let ?A = "places s {path_join w ''mask.bmp'', path_join w ''rough_mask.bmp'',
              path_join w ''blended_mask.bmp'', path_join w ''original_image.bmp''}"
  have "\<exists>im0 bo. image_open C im_path s' = (Inr im0, s')
           \<and> im_size (image_resize C (working_size K) im0) = (IMG_RESIZE_DIM K, IMG_RESIZE_DIM K)
           \<and> encode_bmp C (image_resize C (working_size K) im0) = Some bo
           \<and> node_of s' (path_join w ''original_image.bmp'') = Some (File bo)
           \<and> ((\<forall>loc. resolve s im_path = Inr loc \<longrightarrow> loc \<notin> ?A)
                \<longrightarrow> image_open C im_path s = (Inr im0, s))"
    if saved: "save_mask C K m r b im_path w s = (Inr (), s')"
  proof -
    from save_mask_success[OF saved] obtain im0 bo where
      opened: "image_open C im_path s' = (Inr im0, s')"
      and bo: "encode_bmp C (image_resize C (working_size K) im0) = Some bo"
        "node_of s' (path_join w ''original_image.bmp'') = Some (File bo)"
      by blast
    have size: "im_size (image_resize C (working_size K) im0)
        = (IMG_RESIZE_DIM K, IMG_RESIZE_DIM K)"
      by (simp add: im_size_resize working_size_def)
    from saved save_mask_frame[of s w C K m r b im_path]
    have frame: "only_files_changed ?A s s'"
      by simp
    have before: "image_open C im_path s = (Inr im0, s)"
      if "\<forall>loc. resolve s im_path = Inr loc \<longrightarrow> loc \<notin> ?A"
    proof -
      from that have "node_of s' im_path = node_of s im_path"
        by (intro node_of_frame[OF frame]) blast
      with opened show ?thesis
        by (simp add: image_open_success)
    qed
    from opened size bo before show ?thesis
      by blast
  qed
  then show ?thesis
    using resized_calls_get_mask[of K s C im_path p1 p2 seed n]
      resized_calls_create_mask[of K s C im_path p1 p2 n seed]
      resized_calls_inpaint[of K s C im_path msk p2 seed]
      resized_calls_demo[of K s C im_path p1 p2 n seed]
    by blast
qed

theorem source_image_always_resized_witness:
  "calls (snd (demo_diffedit ex_components ex_constants ''dog.png'' ''dog'' ''cat'' 2 42 ex_session))
     = [CallImg2Latent \<lparr>im_size = (2, 2), im_mode = ''L'', im_data = [9, 8, 7, 6]\<rparr> (18215 / 100000),
        CallCalcMask [9, 8, 7, 6] ''dog'' ''cat'' 2 42,
        CallBlend \<lparr>im_size = (2, 2), im_mode = ''L'', im_data = [9, 8, 7, 6]\<rparr> [9, 8, 7, 6],
        CallInpaint \<lparr>im_size = (2, 2), im_mode = ''L'', im_data = [9, 8, 7, 6]\<rparr>
          \<lparr>im_size = (2, 2), im_mode = ''L'', im_data = [9, 8, 7, 6]\<rparr> ''cat'' 42]
   \<and> resized_calls ex_constants ex_session
       (snd (demo_diffedit ex_components ex_constants ''dog.png'' ''dog'' ''cat'' 2 42 ex_session))
   \<and> resized_calls ex_constants ex_session
       (snd (get_mask ex_components ex_constants ''dog.png'' ''dog'' ''cat'' 42 2 ex_session))
   \<and> save_mask ex_components ex_constants ex_mask ex_rough ex_blended ''dog.png'' ''out'' ex_session
     = (Inr (), snd (save_mask ex_components ex_constants ex_mask ex_rough ex_blended ''dog.png''
                       ''out'' ex_session))
   \<and> resolve ex_session ''dog.png'' = Inr [''home'', ''dog.png'']
   \<and> [''home'', ''dog.png'']
       \<notin> places ex_session {path_join ''out'' ''mask.bmp'', path_join ''out'' ''rough_mask.bmp'',
            path_join ''out'' ''blended_mask.bmp'', path_join ''out'' ''original_image.bmp''}
   \<and> (\<exists>im0 bo. image_open ex_components ''dog.png'' ex_session = (Inr im0, ex_session)
        \<and> im_size (image_resize ex_components (working_size ex_constants) im0) = (2, 2)
        \<and> encode_bmp ex_components (image_resize ex_components (working_size ex_constants) im0)
            = Some bo
        \<and> node_of (snd (save_mask ex_components ex_constants ex_mask ex_rough ex_blended ''dog.png''
                          ''out'' ex_session)) (path_join ''out'' ''original_image.bmp'')
            = Some (File bo))"
proof -
  have trace: "calls (snd (demo_diffedit ex_components ex_constants ''dog.png'' ''dog'' ''cat'' 2 42
      ex_session))
     = [CallImg2Latent \<lparr>im_size = (2, 2), im_mode = ''L'', im_data = [9, 8, 7, 6]\<rparr> (18215 / 100000),
        CallCalcMask [9, 8, 7, 6] ''dog'' ''cat'' 2 42,
        CallBlend \<lparr>im_size = (2, 2), im_mode = ''L'', im_data = [9, 8, 7, 6]\<rparr> [9, 8, 7, 6],
        CallInpaint \<lparr>im_size = (2, 2), im_mode = ''L'', im_data = [9, 8, 7, 6]\<rparr>
          \<lparr>im_size = (2, 2), im_mode = ''L'', im_data = [9, 8, 7, 6]\<rparr> ''cat'' 42]"
    by (simp add: run_defs)
  have "fst (save_mask ex_components ex_constants ex_mask ex_rough ex_blended ''dog.png''
      ''out'' ex_session) = Inr ()"
    by (simp add: run_defs ex_mask_def ex_rough_def ex_blended_def)
  then have run: "save_mask ex_components ex_constants ex_mask ex_rough ex_blended ''dog.png''
      ''out'' ex_session
      = (Inr (), snd (save_mask ex_components ex_constants ex_mask ex_rough ex_blended ''dog.png''
                        ''out'' ex_session))"
    by (simp add: prod_eq_iff)
  have dim: "IMG_RESIZE_DIM ex_constants = 2"
    by (simp add: ex_constants_def)
  have at: "resolve ex_session ''dog.png'' = Inr [''home'', ''dog.png'']"
    by (simp add: resolve_def ex_session_def node_at_def step_def)
  have apart: "[''home'', ''dog.png'']
       \<notin> places ex_session {path_join ''out'' ''mask.bmp'', path_join ''out'' ''rough_mask.bmp'',
            path_join ''out'' ''blended_mask.bmp'', path_join ''out'' ''original_image.bmp''}"
    by (simp add: places_def resolve_def ex_session_def node_at_def step_def path_join_def)
  note inst = source_image_always_resized[where C = ex_components and K = ex_constants
      and im_path = "''dog.png''" and s = ex_session and m = ex_mask and r = ex_rough
      and b = ex_blended and w = "''out''"
      and s' = "snd (save_mask ex_components ex_constants ex_mask ex_rough ex_blended ''dog.png''
                       ''out'' ex_session)",
      of "''dog''" "''cat''" 42 2 ex_mask]
  from inst run at apart dim
  have persisted: "\<exists>im0 bo. image_open ex_components ''dog.png'' ex_session = (Inr im0, ex_session)
        \<and> im_size (image_resize ex_components (working_size ex_constants) im0) = (2, 2)
        \<and> encode_bmp ex_components (image_resize ex_components (working_size ex_constants) im0)
            = Some bo
        \<and> node_of (snd (save_mask ex_components ex_constants ex_mask ex_rough ex_blended ''dog.png''
                          ''out'' ex_session)) (path_join ''out'' ''original_image.bmp'')
            = Some (File bo)"
    by (metis sum.inject(2))
  from inst have traces: "resized_calls ex_constants ex_session
       (snd (demo_diffedit ex_components ex_constants ''dog.png'' ''dog'' ''cat'' 2 42 ex_session))"
    "resized_calls ex_constants ex_session
       (snd (get_mask ex_components ex_constants ''dog.png'' ''dog'' ''cat'' 42 2 ex_session))"
    by blast+
  from trace traces run at apart persisted show ?thesis
    by (intro conjI)
qed

subsection \<open>Prompt embedding\<close>

text \<open>
  Claim C9. With a tokenizer and a text encoder in place, \<open>_get_embedding_for_prompt\<close>
  returns, for every prompt, an embedding for a batch of one sequence of exactly
  \<open>model_max_length\<close> positions: the token ids of the prompt cut to that length
  when there are more, filled with the padding id when there are fewer. The
  embedding carries no gradient, and the gradient mode is afterwards what it was.
\<close>

theorem embedding_fixed_shape:
  assumes "tokenizer self = Some tok" and "text_encoder self = Some enc"
  shows "\<exists>t ids. get_embedding_for_prompt L self prompt g = (Inr t, g)
           \<and> ids = take (model_max_length tok) (tokenize tok prompt)
                   @ replicate (model_max_length tok - length (tokenize tok prompt)) (pad_token_id tok)
           \<and> length ids = model_max_length tok
           \<and> t_data t = [map (hidden_state L enc ids) [0..<model_max_length tok]]
           \<and> \<not> requires_grad t"
  using assms
  by (auto simp: get_embedding_for_prompt_def Let_def no_grad_def tokenizer_call_def
        text_encoder_forward_def bind_ex_def return_ex_def min_def)

theorem embedding_fixed_shape_witness:
  "tokenizer ex_object = Some ex_tokenizer \<and> text_encoder ex_object = Some 1
   \<and> (\<exists>t ids. get_embedding_for_prompt ex_torch ex_object ''a dog'' True = (Inr t, True)
         \<and> ids = take (model_max_length ex_tokenizer) (tokenize ex_tokenizer ''a dog'')
                 @ replicate (model_max_length ex_tokenizer - length (tokenize ex_tokenizer ''a dog''))
                     (pad_token_id ex_tokenizer)
         \<and> length ids = model_max_length ex_tokenizer
         \<and> t_data t = [map (hidden_state ex_torch 1 ids) [0..<model_max_length ex_tokenizer]]
         \<and> \<not> requires_grad t)"
proof -
  have tok: "tokenizer ex_object = Some ex_tokenizer"
    and enc: "text_encoder ex_object = Some 1"
    by (simp_all add: ex_object_def)
  from embedding_fixed_shape[OF tok enc, of ex_torch "''a dog''" True] tok enc
  show ?thesis by simp
qed

subsection \<open>Construction\<close>

text \<open>
  Claim C10, amended. Constructing a \<open>DiffEdit\<close> with \<open>vae\<close>, \<open>text_encoder\<close>,
  \<open>unet\<close> or \<open>inpainting\<close> left as \<open>None\<close> fails in the constructor, which calls
  \<open>to\<close>, whatever the collaborator classes do. \<open>to\<close> looks at nothing else: when
  these four are given and move to the device, and the constructors of the three
  collaborators return, construction succeeds whatever the tokenizer, the
  scheduler and the device are, \<open>None\<close> included, and the object keeps them as
  they were passed. An object without a tokenizer raises when a prompt is to be
  embedded.
\<close>

theorem init_fails_without_moved_component:
  "(vae_arg = None \<or> text_encoder_arg = None \<or> unet_arg = None \<or> inpainting_arg = None
      \<longrightarrow> (\<exists>e. DiffEdit_init L N tok_arg text_encoder_arg vae_arg unet_arg inpainting_arg sch_arg dev
                 = Inl e))
   \<and> (vae_arg = Some v \<and> text_encoder_arg = Some te \<and> unet_arg = Some u \<and> inpainting_arg = Some i
      \<and> module_to L v dev = Inr v' \<and> module_to L te dev = Inr te' \<and> module_to L u dev = Inr u'
      \<and> module_to L i dev = Inr i'
      \<and> new_image_processor N vae_arg dev = Inr ip
      \<and> new_mask_generator N unet_arg sch_arg tok_arg text_encoder_arg ip dev = Inr mg
      \<and> new_inpainter N inpainting_arg dev = Inr inp
      \<longrightarrow> (\<exists>obj. DiffEdit_init L N tok_arg text_encoder_arg vae_arg unet_arg inpainting_arg sch_arg dev
                   = Inr obj
                 \<and> tokenizer obj = tok_arg \<and> scheduler obj = sch_arg \<and> torch_device obj = dev))
   \<and> (tokenizer self = None
      \<longrightarrow> get_embedding_for_prompt L' self prompt g
            = (Inl (AttributeError ''NoneType object has no attribute model_max_length''), g))"
  by (auto simp: DiffEdit_init_def to_def bind_ex_def attr_to_def Let_def
        get_embedding_for_prompt_def raise_ex_def
      split: option.splits sum.splits prod.splits)

theorem init_fails_without_moved_component_witness:
  "(\<exists>e. DiffEdit_init ex_torch
           (wiring_classes :: (nat, unit, nat image_processor, (nat, unit) mask_generator,
                               nat inpainter) collaborator_classes)
           (Some ex_tokenizer) (Some 1) None (Some 3) (Some 4) (Some ()) (Some ''cpu'') = Inl e)
   \<and> module_to ex_torch 2 (Some ''cpu'') = Inr 2
   \<and> new_inpainter (wiring_classes :: (nat, unit, nat image_processor, (nat, unit) mask_generator,
                                          nat inpainter) collaborator_classes)
        (Some 4) (Some ''cpu'') = Inr (Inpainter (Some 4) (Some ''cpu''))
   \<and> (\<exists>obj. DiffEdit_init ex_torch
               (wiring_classes :: (nat, unit, nat image_processor, (nat, unit) mask_generator,
                                   nat inpainter) collaborator_classes)
               None (Some 1) (Some 2) (Some 3) (Some 4) None (Some ''cpu'') = Inr obj
          \<and> tokenizer obj = None \<and> scheduler obj = None \<and> torch_device obj = Some ''cpu'')
   \<and> tokenizer ex_untokenized = None
   \<and> get_embedding_for_prompt ex_torch ex_untokenized ''a dog'' True
       = (Inl (AttributeError ''NoneType object has no attribute model_max_length''), True)"
proof -
  let ?N = "wiring_classes :: (nat, unit, nat image_processor, (nat, unit) mask_generator,
                               nat inpainter) collaborator_classes"
  have moves: "module_to ex_torch 1 (Some ''cpu'') = Inr 1" "module_to ex_torch 2 (Some ''cpu'') = Inr 2"
    "module_to ex_torch 3 (Some ''cpu'') = Inr 3" "module_to ex_torch 4 (Some ''cpu'') = Inr 4"
    by (simp_all add: ex_torch_def)
  have built: "new_image_processor ?N (Some 2) (Some ''cpu'') = Inr (ImageProcessor (Some 2) (Some ''cpu''))"
    "new_mask_generator ?N (Some 3) None None (Some 1) (ImageProcessor (Some 2) (Some ''cpu''))
       (Some ''cpu'')
     = Inr (MaskGenerator (Some 3) None None (Some 1) (ImageProcessor (Some 2) (Some ''cpu''))
              (Some ''cpu''))"
    "new_inpainter ?N (Some 4) (Some ''cpu'') = Inr (Inpainter (Some 4) (Some ''cpu''))"
    by (simp_all add: wiring_classes_def)
  have none: "tokenizer ex_untokenized = None"
    by (simp add: ex_untokenized_def)
  note fails = init_fails_without_moved_component[where L = ex_torch and L' = ex_torch and N = ?N
      and tok_arg = "Some ex_tokenizer"
      and text_encoder_arg = "Some 1" and vae_arg = None and unet_arg = "Some 3"
      and inpainting_arg = "Some 4" and sch_arg = "Some ()" and dev = "Some ''cpu''"
      and self = ex_untokenized and prompt = "''a dog''" and g = True]
  note builds = init_fails_without_moved_component[where L = ex_torch and L' = ex_torch and N = ?N
      and tok_arg = None
      and text_encoder_arg = "Some 1" and vae_arg = "Some 2" and unet_arg = "Some 3"
      and inpainting_arg = "Some 4" and sch_arg = None and dev = "Some ''cpu''"
      and v = 2 and te = 1 and u = 3 and i = 4 and v' = 2 and te' = 1 and u' = 3 and i' = 4
      and ip = "ImageProcessor (Some 2) (Some ''cpu'')"
      and mg = "MaskGenerator (Some 3) None None (Some 1) (ImageProcessor (Some 2) (Some ''cpu''))
                  (Some ''cpu'')"
      and inp = "Inpainter (Some 4) (Some ''cpu'')"
      and self = ex_untokenized and prompt = "''a dog''" and g = True]
  from fails have first: "\<exists>e. DiffEdit_init ex_torch ?N (Some ex_tokenizer) (Some 1) None (Some 3)
      (Some 4) (Some ()) (Some ''cpu'') = Inl e"
    by blast
  from builds moves built
  have second: "\<exists>obj. DiffEdit_init ex_torch ?N None (Some 1) (Some 2) (Some 3) (Some 4) None
        (Some ''cpu'') = Inr obj
      \<and> tokenizer obj = None \<and> scheduler obj = None \<and> torch_device obj = Some ''cpu''"
    by blast
  from builds none
  have third: "get_embedding_for_prompt ex_torch ex_untokenized ''a dog'' True
       = (Inl (AttributeError ''NoneType object has no attribute model_max_length''), True)"
    by blast
  from first moves(2) built(3) second none third show ?thesis
    by (intro conjI)
qed

text \<open>
  The claim as it was first put has every component argument left as \<open>None\<close>
  fail in the constructor. With no tokenizer and no scheduler, and collaborators
  that keep what they are given, the constructor returns an object, and that
  object fails at its first use, when a prompt is to be embedded.
\<close>

theorem init_without_tokenizer_counterexample:
  "DiffEdit_init ex_torch wiring_classes None (Some 1) (Some 2) (Some 3) (Some 4) None (Some ''cpu'')
     = Inr ex_untokenized
   \<and> get_embedding_for_prompt ex_torch ex_untokenized ''a dog'' True
     = (Inl (AttributeError ''NoneType object has no attribute model_max_length''), True)"
  by (simp add: DiffEdit_init_def to_def bind_ex_def attr_to_def Let_def wiring_classes_def
        ImageProcessor_def MaskGenerator_def Inpainter_def ex_torch_def ex_untokenized_def
        get_embedding_for_prompt_def raise_ex_def)

end
